theory Spec2Isabelle
  imports Main
begin

section \<open>Python values used by the tracker\<close>

subsection \<open>Strings\<close>

text \<open>
  A string is a list of characters, each read as the code point from U+0000 to U+00FF of
  its number. \<open>isspace\<close> is \<^verbatim>\<open>str.isspace\<close> on these code points, the set that
  \<^verbatim>\<open>str.strip()\<close> removes at both ends: the ASCII whitespace, the four separators
  U+001C to U+001F, the next-line character U+0085 and the no-break space U+00A0.
  \<open>lower\<close> is \<^verbatim>\<open>str.lower()\<close>: the letters \<^verbatim>\<open>A\<close> to \<^verbatim>\<open>Z\<close> and the capital letters
  U+00C0 to U+00DE (the multiplication sign U+00D7 is not a letter) move up by 32, and
  every other character of this range stays.
\<close>

definition isspace :: "char \<Rightarrow> bool" where
  "isspace c =
     (c \<in> set [CHR 0x09, CHR 0x0A, CHR 0x0B, CHR 0x0C, CHR 0x0D,
                CHR 0x1C, CHR 0x1D, CHR 0x1E, CHR 0x1F, CHR 0x20, CHR 0x85, CHR 0xA0])"

definition strip :: "string \<Rightarrow> string" where
  "strip s = rev (dropWhile isspace (rev (dropWhile isspace s)))"

definition capital_letters :: string where
  "capital_letters =
     ''ABCDEFGHIJKLMNOPQRSTUVWXYZ'' @
     [CHR 0xC0, CHR 0xC1, CHR 0xC2, CHR 0xC3, CHR 0xC4, CHR 0xC5, CHR 0xC6, CHR 0xC7,
      CHR 0xC8, CHR 0xC9, CHR 0xCA, CHR 0xCB, CHR 0xCC, CHR 0xCD, CHR 0xCE, CHR 0xCF,
      CHR 0xD0, CHR 0xD1, CHR 0xD2, CHR 0xD3, CHR 0xD4, CHR 0xD5, CHR 0xD6,
      CHR 0xD8, CHR 0xD9, CHR 0xDA, CHR 0xDB, CHR 0xDC, CHR 0xDD, CHR 0xDE]"

definition small_letters :: string where
  "small_letters =
     ''abcdefghijklmnopqrstuvwxyz'' @
     [CHR 0xE0, CHR 0xE1, CHR 0xE2, CHR 0xE3, CHR 0xE4, CHR 0xE5, CHR 0xE6, CHR 0xE7,
      CHR 0xE8, CHR 0xE9, CHR 0xEA, CHR 0xEB, CHR 0xEC, CHR 0xED, CHR 0xEE, CHR 0xEF,
      CHR 0xF0, CHR 0xF1, CHR 0xF2, CHR 0xF3, CHR 0xF4, CHR 0xF5, CHR 0xF6,
      CHR 0xF8, CHR 0xF9, CHR 0xFA, CHR 0xFB, CHR 0xFC, CHR 0xFD, CHR 0xFE]"

definition lower_char :: "char \<Rightarrow> char" where
  "lower_char c =
     (case map_of (zip capital_letters small_letters) c of
        Some d \<Rightarrow> d
      | None \<Rightarrow> c)"

definition lower :: "string \<Rightarrow> string" where
  "lower s = map lower_char s"

text \<open>\<^verbatim>\<open>s.replace(c, '')\<close> for a one-character \<open>c\<close>.\<close>

definition remove_all :: "char \<Rightarrow> string \<Rightarrow> string" where
  "remove_all c s = filter (\<lambda>x. x \<noteq> c) s"

fun startswith :: "string \<Rightarrow> string \<Rightarrow> bool" where
  "startswith s [] = True"
| "startswith [] (p # ps) = False"
| "startswith (c # cs) (p # ps) = (c = p \<and> startswith cs ps)"

text \<open>\<^verbatim>\<open>name in s\<close> on strings: \<open>name\<close> occurs in \<open>s\<close> as a contiguous substring.\<close>

fun contains :: "string \<Rightarrow> string \<Rightarrow> bool" where
  "contains [] name = (name = [])"
| "contains (c # cs) name = (startswith (c # cs) name \<or> contains cs name)"

subsection \<open>Floats\<close>

text \<open>
  A Python float is an IEEE 754 binary64 value. \<open>Fin m e\<close> is the finite value
  \<open>m * 2 ^ e\<close>, kept in lowest terms (\<open>m\<close> odd, or \<open>Fin 0 0\<close> for zero) so that HOL
  equality is equality of values; the sign of zero is not represented. Every
  arithmetic operation computes the exact result and rounds it to the nearest
  representable value, ties to even, as the hardware does.
\<close>

datatype pyfloat = Fin int int | PosInf | NegInf | NaN

datatype py_error = TypeError | ZeroDivisionError | OverflowError

fun bitlen :: "nat \<Rightarrow> nat" where
  "bitlen n = (if n = 0 then 0 else Suc (bitlen (n div 2)))"

declare bitlen.simps [simp del]

function normal :: "int \<Rightarrow> int \<Rightarrow> pyfloat" where
  "normal m e =
     (if m = 0 then Fin 0 0 else if even m then normal (m div 2) (e + 1) else Fin m e)"
  by pat_completeness auto
termination
  by (relation "measure (\<lambda>(m, e). nat \<bar>m\<bar>)") auto

declare normal.simps [simp del]

text \<open>The integer nearest to \<open>num / den\<close> (\<open>0 \<le> num\<close>, \<open>0 < den\<close>), ties to even.\<close>

definition round_half_even :: "int \<Rightarrow> int \<Rightarrow> int" where
  "round_half_even num den =
     (let m = num div den; r = num mod den
      in if 2 * r < den then m else if den < 2 * r then m + 1
         else if even m then m else m + 1)"

text \<open>
  For positive \<open>p\<close> and \<open>q\<close>: the exponent of the leading bit of \<open>p / q\<close>, that is,
  the \<open>e\<close> with \<open>2 ^ e \<le> p / q < 2 ^ (e + 1)\<close>.
\<close>

definition leading_exponent :: "int \<Rightarrow> int \<Rightarrow> int" where
  "leading_exponent p q =
     (let t = int (bitlen (nat p)) - int (bitlen (nat q))
      in if (if 0 \<le> t then q * 2 ^ nat t \<le> p else q \<le> p * 2 ^ nat (- t)) then t else t - 1)"

text \<open>The integer nearest to \<open>p / q * 2 ^ sh\<close>, ties to even.\<close>

definition scaled_round :: "int \<Rightarrow> int \<Rightarrow> int \<Rightarrow> int" where
  "scaled_round p q sh =
     (if 0 \<le> sh then round_half_even (p * 2 ^ nat sh) q
      else round_half_even p (q * 2 ^ nat (- sh)))"

text \<open>
  \<open>round_pos p q x\<close> rounds the positive number \<open>p / q * 2 ^ x\<close> to a mantissa of 53
  bits: \<open>qe\<close> is the exponent of the last mantissa bit (not below the subnormal limit
  \<open>- 1074\<close>), and the result is \<open>None\<close> when the rounded value reaches \<open>2 ^ 1024\<close>
  (overflow).
\<close>

definition round_pos :: "int \<Rightarrow> int \<Rightarrow> int \<Rightarrow> (int \<times> int) option" where
  "round_pos p q x =
     (let qe = max (leading_exponent p q + x - 52) (- 1074);
          m = scaled_round p q (x - qe)
      in if 1024 < int (bitlen (nat m)) + qe then None else Some (m, qe))"

text \<open>The float nearest to \<open>p / q * 2 ^ x\<close>, for \<open>0 < q\<close>.\<close>

definition round_double :: "int \<Rightarrow> int \<Rightarrow> int \<Rightarrow> pyfloat" where
  "round_double p q x =
     (if p = 0 then Fin 0 0
      else case round_pos \<bar>p\<bar> q x of
             None \<Rightarrow> (if 0 < p then PosInf else NegInf)
           | Some (m, e) \<Rightarrow> normal (sgn p * m) e)"

definition float_of_int :: "int \<Rightarrow> pyfloat" where
  "float_of_int n = round_double n 1 0"

fun fneg :: "pyfloat \<Rightarrow> pyfloat" where
  "fneg (Fin m e) = Fin (- m) e"
| "fneg PosInf = NegInf"
| "fneg NegInf = PosInf"
| "fneg NaN = NaN"

fun fadd :: "pyfloat \<Rightarrow> pyfloat \<Rightarrow> pyfloat" where
  "fadd NaN y = NaN"
| "fadd x NaN = NaN"
| "fadd PosInf NegInf = NaN"
| "fadd NegInf PosInf = NaN"
| "fadd PosInf y = PosInf"
| "fadd NegInf y = NegInf"
| "fadd x PosInf = PosInf"
| "fadd x NegInf = NegInf"
| "fadd (Fin m1 e1) (Fin m2 e2) =
     round_double (m1 * 2 ^ nat (e1 - min e1 e2) + m2 * 2 ^ nat (e2 - min e1 e2)) 1 (min e1 e2)"

definition fsub :: "pyfloat \<Rightarrow> pyfloat \<Rightarrow> pyfloat" where
  "fsub x y = fadd x (fneg y)"

text \<open>The sign of a float as \<open>- 1\<close>, \<open>0\<close> or \<open>1\<close>; \<open>NaN\<close> has none.\<close>

fun fsign :: "pyfloat \<Rightarrow> int" where
  "fsign (Fin m e) = sgn m"
| "fsign PosInf = 1"
| "fsign NegInf = - 1"
| "fsign NaN = 0"

definition inf_of_sign :: "int \<Rightarrow> pyfloat" where
  "inf_of_sign s = (if s = 0 then NaN else if 0 < s then PosInf else NegInf)"

fun fmul :: "pyfloat \<Rightarrow> pyfloat \<Rightarrow> pyfloat" where
  "fmul NaN y = NaN"
| "fmul x NaN = NaN"
| "fmul (Fin m1 e1) (Fin m2 e2) = round_double (m1 * m2) 1 (e1 + e2)"
| "fmul x y = inf_of_sign (fsign x * fsign y)"

text \<open>
  \<^verbatim>\<open>x / y\<close> on floats raises \<^verbatim>\<open>ZeroDivisionError\<close> for a zero divisor and is the
  IEEE quotient otherwise.
\<close>

fun truediv :: "pyfloat \<Rightarrow> pyfloat \<Rightarrow> py_error + pyfloat" where
  "truediv x (Fin m2 e2) =
     (if m2 = 0 then Inl ZeroDivisionError
      else case x of
             Fin m1 e1 \<Rightarrow> Inr (round_double (sgn m2 * m1) \<bar>m2\<bar> (e1 - e2))
           | NaN \<Rightarrow> Inr NaN
           | _ \<Rightarrow> Inr (inf_of_sign (fsign x * sgn m2)))"
| "truediv x NaN = Inr NaN"
| "truediv (Fin m1 e1) y = Inr (Fin 0 0)"
| "truediv x y = Inr NaN"

text \<open>\<^verbatim>\<open>x > 0\<close> and \<^verbatim>\<open>x >= 0\<close>; every comparison with \<open>NaN\<close> is false.\<close>

fun fpositive :: "pyfloat \<Rightarrow> bool" where
  "fpositive (Fin m e) = (0 < m)"
| "fpositive PosInf = True"
| "fpositive x = False"

fun fnonneg :: "pyfloat \<Rightarrow> bool" where
  "fnonneg (Fin m e) = (0 \<le> m)"
| "fnonneg PosInf = True"
| "fnonneg x = False"

text \<open>
  The builtin \<^verbatim>\<open>sum\<close>: a left fold of \<open>+\<close> from \<open>0\<close>. The integer \<open>0\<close> it starts from
  is the float zero here: adding it to a float returns that float.
\<close>

definition fsum :: "pyfloat list \<Rightarrow> pyfloat" where
  "fsum xs = foldl fadd (Fin 0 0) xs"

subsection \<open>The constructor \<^verbatim>\<open>float(s)\<close> on a string\<close>

text \<open>
  \<^verbatim>\<open>float(s)\<close> first brings the string to ASCII: a string with a character above
  U+007F has each whitespace character above U+007E replaced by a space and is cut at
  the first other character above U+007E, which becomes \<^verbatim>\<open>?\<close> (a decimal digit above
  U+007E would become its ASCII digit, but there is none up to U+00FF); an ASCII string
  is taken as it is. Then the whitespace of C (tab, line feed, vertical tab, form feed,
  carriage return and space; not U+001C to U+001F) is removed at both ends, and the rest
  is read by the grammar of the language reference:
  \<^verbatim>\<open>
  sign        ::= "+" | "-"
  digitpart   ::= digit (["_"] digit)*
  number      ::= [digitpart] "." digitpart | digitpart ["."]
  exponent    ::= ("e" | "E") [sign] digitpart
  floatvalue  ::= [sign] (number [exponent] | "inf" | "infinity" | "nan")
  \<close>
  with the names matched in any case. \<open>None\<close> is \<^verbatim>\<open>ValueError\<close>. The value is rounded
  correctly from the exact decimal number.
\<close>

fun transform_decimal_and_space :: "string \<Rightarrow> string" where
  "transform_decimal_and_space [] = []"
| "transform_decimal_and_space (c # cs) =
     (if of_char c < (127 :: nat) then c # transform_decimal_and_space cs
      else if isspace c then CHR '' '' # transform_decimal_and_space cs
      else ''?'')"

definition to_ascii :: "string \<Rightarrow> string" where
  "to_ascii s =
     (if list_all (\<lambda>c. of_char c < (128 :: nat)) s then s else transform_decimal_and_space s)"

definition c_isspace :: "char \<Rightarrow> bool" where
  "c_isspace c = (c \<in> set [CHR 0x09, CHR 0x0A, CHR 0x0B, CHR 0x0C, CHR 0x0D, CHR 0x20])"

definition c_strip :: "string \<Rightarrow> string" where
  "c_strip s = rev (dropWhile c_isspace (rev (dropWhile c_isspace s)))"

definition isdigit :: "char \<Rightarrow> bool" where
  "isdigit c = (c \<in> set ''0123456789'')"

definition digit_value :: "char \<Rightarrow> nat" where
  "digit_value c = of_char c - 48"

definition nat_of_digits :: "string \<Rightarrow> nat" where
  "nat_of_digits ds = foldl (\<lambda>n c. 10 * n + digit_value c) 0 ds"

text \<open>The digits that follow a first digit, and the text after them.\<close>

fun digits_tail :: "string \<Rightarrow> string \<times> string" where
  "digits_tail [] = ([], [])"
| "digits_tail [c] = (if isdigit c then ([c], []) else ([], [c]))"
| "digits_tail (c # d # cs) =
     (if isdigit c then (case digits_tail (d # cs) of (ds, r) \<Rightarrow> (c # ds, r))
      else if c = CHR ''_'' \<and> isdigit d then (case digits_tail cs of (ds, r) \<Rightarrow> (d # ds, r))
      else ([], c # d # cs))"

definition digitpart :: "string \<Rightarrow> (string \<times> string) option" where
  "digitpart s =
     (case s of
        [] \<Rightarrow> None
      | c # cs \<Rightarrow> if isdigit c then (case digits_tail cs of (ds, r) \<Rightarrow> Some (c # ds, r)) else None)"

text \<open>An optional sign: whether it is a minus, and the text after it.\<close>

definition sign_part :: "string \<Rightarrow> bool \<times> string" where
  "sign_part s =
     (case s of
        [] \<Rightarrow> (False, [])
      | c # cs \<Rightarrow> if c = CHR ''-'' then (True, cs) else if c = CHR ''+'' then (False, cs)
                else (False, c # cs))"

text \<open>A number: the digits before the point, those after it, and the text that follows.\<close>

definition float_number :: "string \<Rightarrow> (string \<times> string \<times> string) option" where
  "float_number s =
     (case digitpart s of
        Some (ip, r) \<Rightarrow>
          (case r of
             [] \<Rightarrow> Some (ip, [], [])
           | c # r1 \<Rightarrow>
               if c = CHR ''.'' then
                 (case digitpart r1 of
                    Some (fp, r2) \<Rightarrow> Some (ip, fp, r2)
                  | None \<Rightarrow> Some (ip, [], r1))
               else Some (ip, [], r))
      | None \<Rightarrow>
          (case s of
             [] \<Rightarrow> None
           | c # r1 \<Rightarrow>
               if c = CHR ''.'' then
                 (case digitpart r1 of
                    Some (fp, r2) \<Rightarrow> Some ([], fp, r2)
                  | None \<Rightarrow> None)
               else None))"

text \<open>An optional exponent: its value (\<open>0\<close> when there is none) and the text after it.\<close>

definition float_exponent :: "string \<Rightarrow> (int \<times> string) option" where
  "float_exponent s =
     (case s of
        [] \<Rightarrow> Some (0, [])
      | c # cs \<Rightarrow>
          if c = CHR ''e'' \<or> c = CHR ''E'' then
            (case sign_part cs of
               (neg, r) \<Rightarrow>
                 (case digitpart r of
                    None \<Rightarrow> None
                  | Some (ds, r1) \<Rightarrow>
                      Some (if neg then - int (nat_of_digits ds) else int (nat_of_digits ds), r1)))
          else Some (0, c # cs))"

text \<open>The float nearest to \<open>\<plusminus> d * 10 ^ k\<close>.\<close>

definition decimal_value :: "bool \<Rightarrow> nat \<Rightarrow> int \<Rightarrow> pyfloat" where
  "decimal_value neg d k =
     (let p = (if neg then - int d else int d)
      in if 0 \<le> k then round_double (p * 10 ^ nat k) 1 0
         else round_double p (10 ^ nat (- k)) 0)"

definition py_float :: "string \<Rightarrow> pyfloat option" where
  "py_float s =
     (case sign_part (c_strip (to_ascii s)) of
        (neg, r) \<Rightarrow>
          if lower r = ''inf'' \<or> lower r = ''infinity'' then Some (if neg then NegInf else PosInf)
          else if lower r = ''nan'' then Some NaN
          else (case float_number r of
                  None \<Rightarrow> None
                | Some (ip, fp, r1) \<Rightarrow>
                    (case float_exponent r1 of
                       None \<Rightarrow> None
                     | Some (ex, r2) \<Rightarrow>
                         if r2 = [] then
                           Some (decimal_value neg (nat_of_digits (ip @ fp)) (ex - int (length fp)))
                         else None)))"

section \<open>The tracker\<close>

subsection \<open>Spreadsheet cells and frames\<close>

text \<open>
  The tracker looks at a cell of the frame in two ways only: \<^verbatim>\<open>pd.isna(value)\<close> and
  \<^verbatim>\<open>str(value)\<close>. A cell is therefore the pair of the two. An empty spreadsheet cell
  is the float \<^verbatim>\<open>nan\<close>, whose text is \<^verbatim>\<open>'nan'\<close>; a number is given by its text, which
  \<^verbatim>\<open>float()\<close> reads back to the same number.
\<close>

record cell =
  isna :: bool
  str :: string

definition nan_cell :: cell where
  "nan_cell = \<lparr>isna = True, str = ''nan''\<rparr>"

definition text_cell :: "string \<Rightarrow> cell" where
  "text_cell s = \<lparr>isna = False, str = s\<rparr>"

text \<open>A row maps a column label to its cell (\<^verbatim>\<open>row[col]\<close>); labels are distinct.\<close>

type_synonym row = "string \<Rightarrow> cell"

record dataframe =
  columns :: "string list"
  rows :: "row list"

subsection \<open>The tables\<close>

text \<open>
  The four tables of \<^verbatim>\<open>create_tables\<close>, each as the list of its rows in insertion
  order. The row id and \<^verbatim>\<open>created_at\<close> columns of the last three tables are never read
  and are left out. A row holds the values that its \<^verbatim>\<open>INSERT\<close> was given, with the
  integer \<open>0\<close> that the code writes for an amount without a column held as the float
  zero. SQLite keeps a \<open>NaN\<close> given to a \<^verbatim>\<open>REAL\<close> column as \<^verbatim>\<open>NULL\<close>, and a row
  that is read has \<^verbatim>\<open>None\<close> in its place: \<open>real_column x\<close> is what a \<^verbatim>\<open>SELECT\<close>
  returns for a column that was given \<open>x\<close>.
\<close>

definition real_column :: "pyfloat \<Rightarrow> pyfloat option" where
  "real_column x = (if x = NaN then None else Some x)"

record baseline =
  baseline_id :: int
  baseline_date :: string
  baseline_name :: string
  description :: string
  created_at :: nat

record agent_performance_row =
  ap_baseline_id :: int
  agent_name :: string
  office :: string
  current_month_promised :: pyfloat
  following_month_promised :: pyfloat
  total_promised :: pyfloat
  ap_import_date :: string

record office_totals_row =
  ot_baseline_id :: int
  ot_office :: string
  current_month_total :: pyfloat
  following_month_total :: pyfloat
  ot_grand_total :: pyfloat
  agent_count :: int
  ot_import_date :: string

record company_totals_row =
  ct_baseline_id :: int
  total_current_month :: pyfloat
  total_following_month :: pyfloat
  ct_grand_total :: pyfloat
  total_agents :: int
  total_offices :: int
  ct_import_date :: string

record database =
  baselines :: "baseline list"
  agent_performance :: "agent_performance_row list"
  office_totals :: "office_totals_row list"
  company_totals :: "company_totals_row list"

text \<open>
  The tracker holds one connection, \<^verbatim>\<open>self.conn\<close>, and reads and writes through it.
  \<open>visible\<close> is what the connection sees, its own uncommitted writes included;
  \<open>durable\<close> is what has been committed.
\<close>

record connection =
  visible :: database
  durable :: database

text \<open>
  The statements that \<^verbatim>\<open>_process_dataframe\<close> runs. A statement may raise (a string
  that cannot be encoded, an integer that does not fit in 64 bits, a full disk, a locked
  file): whether it does is decided outside the program, by a parameter \<open>ok\<close> of the
  state and the statement. \<open>execute\<close> returns \<open>None\<close> when the statement raises, and then
  it has changed nothing.
\<close>

datatype statement =
    InsertAgent agent_performance_row
  | InsertOffice office_totals_row
  | InsertCompany company_totals_row
  | Commit

type_synonym sqlite = "database \<Rightarrow> statement \<Rightarrow> bool"

fun apply_statement :: "connection \<Rightarrow> statement \<Rightarrow> connection" where
  "apply_statement c (InsertAgent r) =
     c\<lparr>visible := (visible c)\<lparr>agent_performance := agent_performance (visible c) @ [r]\<rparr>\<rparr>"
| "apply_statement c (InsertOffice r) =
     c\<lparr>visible := (visible c)\<lparr>office_totals := office_totals (visible c) @ [r]\<rparr>\<rparr>"
| "apply_statement c (InsertCompany r) =
     c\<lparr>visible := (visible c)\<lparr>company_totals := company_totals (visible c) @ [r]\<rparr>\<rparr>"
| "apply_statement c Commit = c\<lparr>durable := visible c\<rparr>"

definition execute :: "sqlite \<Rightarrow> connection \<Rightarrow> statement \<Rightarrow> connection option" where
  "execute ok c s = (if ok (visible c) s then Some (apply_statement c s) else None)"

subsection \<open>Import\<close>

fun find_column :: "string list \<Rightarrow> string list \<Rightarrow> string option" where
  "find_column [] possible_names = None"
| "find_column (col # cols) possible_names =
     (if list_ex (\<lambda>name. contains (lower col) (lower name)) possible_names then Some col
      else find_column cols possible_names)"

definition safe_float :: "cell \<Rightarrow> pyfloat" where
  "safe_float v =
     (if isna v then Fin 0 0
      else case py_float (remove_all CHR '','' (remove_all CHR ''$'' (str v))) of
             None \<Rightarrow> Fin 0 0
           | Some x \<Rightarrow> x)"

text \<open>
  \<^verbatim>\<open>f(col) if col else d\<close>: a column is used when it was found and its label is not the
  empty string.
\<close>

definition if_col :: "string option \<Rightarrow> (string \<Rightarrow> 'a) \<Rightarrow> 'a \<Rightarrow> 'a" where
  "if_col col f d = (case col of None \<Rightarrow> d | Some c \<Rightarrow> if c = [] then d else f c)"

text \<open>The rows that the loop passes over: blank cells and total lines.\<close>

definition skipped :: "string \<Rightarrow> bool" where
  "skipped agent = (lower agent \<in> set [''nan'', ''total'', ''grand total'', []])"

text \<open>The record that the loop inserts for a row that is not skipped.\<close>

definition agent_row ::
  "int \<Rightarrow> string \<Rightarrow> string option \<Rightarrow> string option \<Rightarrow> string option \<Rightarrow> string \<Rightarrow> row
    \<Rightarrow> agent_performance_row" where
  "agent_row bid import_date office_col current_col following_col agent r =
     (let off = if_col office_col (\<lambda>c. strip (str (r c))) ''Unknown'';
          cur = if_col current_col (\<lambda>c. safe_float (r c)) (Fin 0 0);
          fol = if_col following_col (\<lambda>c. safe_float (r c)) (Fin 0 0)
      in \<lparr>ap_baseline_id = bid, agent_name = agent, office = off,
          current_month_promised = cur, following_month_promised = fol,
          total_promised = fadd cur fol, ap_import_date = import_date\<rparr>)"

text \<open>
  The dictionary \<^verbatim>\<open>office_totals\<close> of the loop, in insertion order: an office with its
  sums \<^verbatim>\<open>current\<close>, \<^verbatim>\<open>following\<close> and its count \<^verbatim>\<open>agents\<close>.
\<close>

type_synonym totals = "pyfloat \<times> pyfloat \<times> int"

definition accumulate ::
  "(string \<times> totals) list \<Rightarrow> string \<Rightarrow> pyfloat \<Rightarrow> pyfloat \<Rightarrow> (string \<times> totals) list" where
  "accumulate d off cur fol =
     (let d1 = (if map_of d off = None then d @ [(off, (Fin 0 0, Fin 0 0, 0))] else d)
      in map (\<lambda>(k, (c, f, n)). if k = off then (k, (fadd c cur, fadd f fol, n + 1))
                               else (k, (c, f, n))) d1)"

text \<open>
  The loop over the rows. An insertion that raises ends it: the result carries the
  connection as it is then, with the rows inserted so far, and no counters.
\<close>

fun insert_agents ::
  "sqlite \<Rightarrow> int \<Rightarrow> string \<Rightarrow> string \<Rightarrow> string option \<Rightarrow> string option \<Rightarrow> string option
    \<Rightarrow> row list \<Rightarrow> connection \<Rightarrow> int \<Rightarrow> (string \<times> totals) list
    \<Rightarrow> connection \<times> (int \<times> (string \<times> totals) list) option" where
  "insert_agents ok bid d ac oc cc fc [] c n ot = (c, Some (n, ot))"
| "insert_agents ok bid d ac oc cc fc (r # rest) c n ot =
     (let agent = strip (str (r ac))
      in if skipped agent then insert_agents ok bid d ac oc cc fc rest c n ot
         else let a = agent_row bid d oc cc fc agent r
              in case execute ok c (InsertAgent a) of
                   None \<Rightarrow> (c, None)
                 | Some c1 \<Rightarrow>
                     insert_agents ok bid d ac oc cc fc rest c1 (n + 1)
                       (accumulate ot (office a) (current_month_promised a)
                          (following_month_promised a)))"

definition office_row :: "int \<Rightarrow> string \<Rightarrow> string \<times> totals \<Rightarrow> office_totals_row" where
  "office_row bid import_date entry =
     (case entry of
        (off, (cur, fol, agents)) \<Rightarrow>
          \<lparr>ot_baseline_id = bid, ot_office = off, current_month_total = cur,
           following_month_total = fol, ot_grand_total = fadd cur fol,
           agent_count = agents, ot_import_date = import_date\<rparr>)"

fun insert_offices ::
  "sqlite \<Rightarrow> int \<Rightarrow> string \<Rightarrow> (string \<times> totals) list \<Rightarrow> connection \<Rightarrow> connection \<times> bool" where
  "insert_offices ok bid d [] c = (c, True)"
| "insert_offices ok bid d (entry # rest) c =
     (case execute ok c (InsertOffice (office_row bid d entry)) of
        None \<Rightarrow> (c, False)
      | Some c1 \<Rightarrow> insert_offices ok bid d rest c1)"

definition company_row :: "int \<Rightarrow> string \<Rightarrow> int \<Rightarrow> (string \<times> totals) list \<Rightarrow> company_totals_row" where
  "company_row bid import_date n ot =
     (let total_current = fsum (map (\<lambda>(k, (c, f, a)). c) ot);
          total_following = fsum (map (\<lambda>(k, (c, f, a)). f) ot)
      in \<lparr>ct_baseline_id = bid, total_current_month = total_current,
          total_following_month = total_following,
          ct_grand_total = fadd total_current total_following,
          total_agents = n, total_offices = int (length ot), ct_import_date = import_date\<rparr>)"

definition agent_names :: "string list" where
  "agent_names = [''agent'', ''collector'', ''name'', ''employee'']"

definition office_names :: "string list" where
  "office_names = [''office'', ''location'', ''branch'', ''dept'']"

definition current_names :: "string list" where
  "current_names = [''current'', ''this month'', ''current month'']"

definition following_names :: "string list" where
  "following_names = [''following'', ''next month'', ''following month'']"

text \<open>
  \<^verbatim>\<open>_process_dataframe(df, baseline_id, file_path)\<close>, with the date of the day as a
  parameter (\<^verbatim>\<open>file_path\<close> is not used). It returns its boolean and the connection it
  leaves. Each \<open>False\<close> but the last is the handler \<^verbatim>\<open>except Exception\<close>, which
  prints, returns \<^verbatim>\<open>False\<close> and does nothing to the connection. The messages that
  the function prints are not part of the model.
\<close>

definition process_dataframe ::
  "sqlite \<Rightarrow> string \<Rightarrow> connection \<Rightarrow> dataframe \<Rightarrow> int \<Rightarrow> bool \<times> connection" where
  "process_dataframe ok import_date c df bid =
     (let agent_col = find_column (columns df) agent_names;
          office_col = find_column (columns df) office_names;
          current_col = find_column (columns df) current_names;
          following_col = find_column (columns df) following_names
      in if_col agent_col
           (\<lambda>ac.
              case insert_agents ok bid import_date ac office_col current_col following_col
                     (rows df) c 0 [] of
                (c1, None) \<Rightarrow> (False, c1)
              | (c1, Some (n, ot)) \<Rightarrow>
                  (case insert_offices ok bid import_date ot c1 of
                     (c2, False) \<Rightarrow> (False, c2)
                   | (c2, True) \<Rightarrow>
                       (case execute ok c2 (InsertCompany (company_row bid import_date n ot)) of
                          None \<Rightarrow> (False, c2)
                        | Some c3 \<Rightarrow>
                            (case execute ok c3 Commit of
                               None \<Rightarrow> (False, c3)
                             | Some c4 \<Rightarrow> (True, c4)))))
           (False, c))"

subsection \<open>Comparison and report\<close>

record baseline_summary =
  name :: string
  date :: string
  grand_total :: pyfloat

record improvements =
  current_month :: pyfloat
  following_month :: pyfloat
  imp_grand_total :: pyfloat
  agent_change :: int
  current_month_percent :: pyfloat
  following_month_percent :: pyfloat
  grand_total_percent :: pyfloat

text \<open>
  The dictionary that \<^verbatim>\<open>compare_baselines\<close> returns: either the single key
  \<^verbatim>\<open>"error"\<close> with its message, or the three keys \<^verbatim>\<open>"baseline1"\<close>,
  \<^verbatim>\<open>"baseline2"\<close> and \<^verbatim>\<open>"improvements"\<close>.
\<close>

datatype comparison =
    Error string
  | Comparison baseline_summary baseline_summary improvements

text \<open>
  \<^verbatim>\<open>cursor.execute('SELECT * FROM t WHERE id = ?', (i,)).fetchone()\<close>: the first row
  with that id, or \<open>None\<close>. An integer parameter outside the signed 64-bit range cannot
  be bound: the call raises \<^verbatim>\<open>OverflowError\<close>.
\<close>

definition sqlite_integer :: "int \<Rightarrow> bool" where
  "sqlite_integer i = (- (2 ^ 63) \<le> i \<and> i < 2 ^ 63)"

definition fetch_baseline :: "connection \<Rightarrow> int \<Rightarrow> py_error + baseline option" where
  "fetch_baseline c i =
     (if sqlite_integer i then Inr (find (\<lambda>b. baseline_id b = i) (baselines (visible c)))
      else Inl OverflowError)"

definition fetch_company_totals :: "connection \<Rightarrow> int \<Rightarrow> py_error + company_totals_row option" where
  "fetch_company_totals c i =
     (if sqlite_integer i then Inr (find (\<lambda>t. ct_baseline_id t = i) (company_totals (visible c)))
      else Inl OverflowError)"

text \<open>
  \<^verbatim>\<open>x - y\<close> on two values read from a \<^verbatim>\<open>REAL\<close> column: a float, or \<^verbatim>\<open>TypeError\<close>
  when one of them is \<^verbatim>\<open>None\<close>.
\<close>

definition sub_columns :: "pyfloat option \<Rightarrow> pyfloat option \<Rightarrow> py_error + pyfloat" where
  "sub_columns x y =
     (case (x, y) of
        (Some a, Some b) \<Rightarrow> Inr (fsub a b)
      | _ \<Rightarrow> Inl TypeError)"

text \<open>
  \<^verbatim>\<open>(improvement / base * 100) if base > 0 else 0\<close>, where the \<open>0\<close> of the last
  branch is the float zero.
\<close>

definition percent :: "pyfloat \<Rightarrow> pyfloat \<Rightarrow> py_error + pyfloat" where
  "percent improvement base =
     (if fpositive base then
        (case truediv improvement base of
           Inl err \<Rightarrow> Inl err
         | Inr q \<Rightarrow> Inr (fmul q (float_of_int 100)))
      else Inr (Fin 0 0))"

text \<open>
  \<^verbatim>\<open>compare_baselines\<close>: the two baselines are fetched and tested, then the two rows of
  company totals; the four differences are computed, the first three on \<^verbatim>\<open>REAL\<close>
  columns; the dictionary is built last, with the percentages.
\<close>

definition compare_baselines :: "connection \<Rightarrow> int \<Rightarrow> int \<Rightarrow> py_error + comparison" where
  "compare_baselines c baseline1_id baseline2_id =
     (case (fetch_baseline c baseline1_id, fetch_baseline c baseline2_id) of
        (Inl err, _) \<Rightarrow> Inl err
      | (_, Inl err) \<Rightarrow> Inl err
      | (Inr (Some baseline1), Inr (Some baseline2)) \<Rightarrow>
          (case (fetch_company_totals c baseline1_id, fetch_company_totals c baseline2_id) of
             (Inl err, _) \<Rightarrow> Inl err
           | (_, Inl err) \<Rightarrow> Inl err
           | (Inr (Some totals1), Inr (Some totals2)) \<Rightarrow>
               (case (sub_columns (real_column (total_current_month totals2))
                        (real_column (total_current_month totals1)),
                      sub_columns (real_column (total_following_month totals2))
                        (real_column (total_following_month totals1)),
                      sub_columns (real_column (ct_grand_total totals2))
                        (real_column (ct_grand_total totals1))) of
                  (Inr current_improvement, Inr following_improvement, Inr grand_improvement) \<Rightarrow>
                    (let agents = total_agents totals2 - total_agents totals1
                     in case percent current_improvement (total_current_month totals1) of
                          Inl err \<Rightarrow> Inl err
                        | Inr p1 \<Rightarrow>
                            (case percent following_improvement (total_following_month totals1) of
                               Inl err \<Rightarrow> Inl err
                             | Inr p2 \<Rightarrow>
                                 (case percent grand_improvement (ct_grand_total totals1) of
                                    Inl err \<Rightarrow> Inl err
                                  | Inr p3 \<Rightarrow>
                                      Inr (Comparison
                                        \<lparr>name = baseline_name baseline1,
                                         date = baseline_date baseline1,
                                         grand_total = ct_grand_total totals1\<rparr>
                                        \<lparr>name = baseline_name baseline2,
                                         date = baseline_date baseline2,
                                         grand_total = ct_grand_total totals2\<rparr>
                                        \<lparr>current_month = current_improvement,
                                         following_month = following_improvement,
                                         imp_grand_total = grand_improvement,
                                         agent_change = agents,
                                         current_month_percent = p1,
                                         following_month_percent = p2,
                                         grand_total_percent = p3\<rparr>))))
                | _ \<Rightarrow> Inl TypeError)
           | _ \<Rightarrow> Inr (Error ''Company totals not found for one or both baselines''))
      | _ \<Rightarrow> Inr (Error ''One or both baselines not found''))"

text \<open>
  The report is the text of one f-string. The model keeps the values that the f-string
  formats, in the order in which it evaluates them, and the message returned when there is
  no baseline at all; the rendering of the numbers and the office lines appended after the
  f-string are left out.
\<close>

record report_values =
  rep_name :: string
  rep_date :: string
  rep_description :: string
  rep_current :: pyfloat
  rep_following :: pyfloat
  rep_grand_total :: pyfloat
  rep_agents :: int
  rep_offices :: int
  rep_average :: pyfloat

datatype report = NoBaselines | Report report_values

text \<open>
  \<^verbatim>\<open>SELECT id FROM baselines ORDER BY created_at DESC LIMIT 1\<close>: a baseline with the
  greatest \<^verbatim>\<open>created_at\<close> (the first inserted of them, where the database is free to
  return any).
\<close>

fun most_recent :: "baseline list \<Rightarrow> baseline option" where
  "most_recent [] = None"
| "most_recent (b # bs) =
     (case most_recent bs of
        None \<Rightarrow> Some b
      | Some b1 \<Rightarrow> if created_at b < created_at b1 then Some b1 else Some b)"

text \<open>
  Subscripting \<^verbatim>\<open>None\<close>, the result of \<^verbatim>\<open>fetchone()\<close> when no row matches, raises
  \<^verbatim>\<open>TypeError\<close>, and so does the format \<^verbatim>\<open>:,.2f\<close> on the \<^verbatim>\<open>None\<close> of a
  \<^verbatim>\<open>NULL\<close> total; the division is a float by an \<^verbatim>\<open>int\<close>.
\<close>

definition report_for :: "connection \<Rightarrow> int \<Rightarrow> py_error + report" where
  "report_for c i =
     (case (fetch_baseline c i, fetch_company_totals c i) of
        (Inl err, _) \<Rightarrow> Inl err
      | (_, Inl err) \<Rightarrow> Inl err
      | (Inr (Some baseline_info), Inr (Some company_total)) \<Rightarrow>
          (case (real_column (total_current_month company_total),
                 real_column (total_following_month company_total),
                 real_column (ct_grand_total company_total)) of
             (Some current, Some following, Some grand) \<Rightarrow>
               (case truediv grand (float_of_int (total_agents company_total)) of
                  Inl err \<Rightarrow> Inl err
                | Inr average \<Rightarrow>
                    Inr (Report
                      \<lparr>rep_name = baseline_name baseline_info,
                       rep_date = baseline_date baseline_info,
                       rep_description = description baseline_info,
                       rep_current = current,
                       rep_following = following,
                       rep_grand_total = grand,
                       rep_agents = total_agents company_total,
                       rep_offices = total_offices company_total,
                       rep_average = average\<rparr>))
           | _ \<Rightarrow> Inl TypeError)
      | _ \<Rightarrow> Inl TypeError)"

definition generate_progress_report :: "connection \<Rightarrow> int option \<Rightarrow> py_error + report" where
  "generate_progress_report c baseline_id_arg =
     (case baseline_id_arg of
        None \<Rightarrow>
          (case most_recent (baselines (visible c)) of
             None \<Rightarrow> Inr NoBaselines
           | Some b \<Rightarrow> report_for c (baseline_id b))
      | Some i \<Rightarrow> report_for c i)"

section \<open>Example stores and sheets\<close>

definition always_ok :: sqlite where
  "always_ok = (\<lambda>db s. True)"

definition empty_database :: database where
  "empty_database = \<lparr>baselines = [], agent_performance = [], office_totals = [], company_totals = []\<rparr>"

definition fresh :: connection where
  "fresh = \<lparr>visible = empty_database, durable = empty_database\<rparr>"

text \<open>Two baselines: the first with all totals zero, the second with a grand total of 500.\<close>

definition january :: baseline where
  "january = \<lparr>baseline_id = 1, baseline_date = ''2024-01-31'', baseline_name = ''January'',
              description = [], created_at = 1\<rparr>"

definition february :: baseline where
  "february = \<lparr>baseline_id = 2, baseline_date = ''2024-02-29'', baseline_name = ''February'',
               description = [], created_at = 2\<rparr>"

definition january_totals :: company_totals_row where
  "january_totals = \<lparr>ct_baseline_id = 1, total_current_month = Fin 0 0,
                     total_following_month = Fin 0 0, ct_grand_total = Fin 0 0,
                     total_agents = 0, total_offices = 0, ct_import_date = ''2024-01-31''\<rparr>"

definition february_totals :: company_totals_row where
  "february_totals = \<lparr>ct_baseline_id = 2, total_current_month = Fin 75 2,
                      total_following_month = Fin 25 3, ct_grand_total = Fin 125 2,
                      total_agents = 3, total_offices = 2, ct_import_date = ''2024-02-29''\<rparr>"

definition two_months :: connection where
  "two_months =
     \<lparr>visible = \<lparr>baselines = [january, february], agent_performance = [], office_totals = [],
                  company_totals = [january_totals, february_totals]\<rparr>,
      durable = \<lparr>baselines = [january, february], agent_performance = [], office_totals = [],
                  company_totals = [january_totals, february_totals]\<rparr>\<rparr>"

text \<open>A store in which the second baseline has no company totals.\<close>

definition one_month :: connection where
  "one_month =
     \<lparr>visible = \<lparr>baselines = [january, february], agent_performance = [], office_totals = [],
                  company_totals = [january_totals]\<rparr>,
      durable = \<lparr>baselines = [january, february], agent_performance = [], office_totals = [],
                  company_totals = [january_totals]\<rparr>\<rparr>"

text \<open>A store with the first baseline and nothing imported yet.\<close>

definition january_store :: connection where
  "january_store =
     \<lparr>visible = \<lparr>baselines = [january], agent_performance = [], office_totals = [],
                  company_totals = []\<rparr>,
      durable = \<lparr>baselines = [january], agent_performance = [], office_totals = [],
                  company_totals = []\<rparr>\<rparr>"

text \<open>Sheets with the columns Agent, Office, Current and Following.\<close>

definition sheet_header :: "string list" where
  "sheet_header = [''Agent'', ''Office'', ''Current'', ''Following'']"

definition sheet_row :: "cell \<Rightarrow> cell \<Rightarrow> cell \<Rightarrow> cell \<Rightarrow> row" where
  "sheet_row a off cur fol =
     (\<lambda>col. if col = ''Agent'' then a else if col = ''Office'' then off
            else if col = ''Current'' then cur else if col = ''Following'' then fol
            else nan_cell)"

text \<open>A sheet that holds a total line and an empty line only.\<close>

definition totals_only :: dataframe where
  "totals_only =
     \<lparr>columns = sheet_header,
      rows = [sheet_row (text_cell ''Total'') nan_cell (text_cell ''150'') (text_cell ''50''),
              sheet_row nan_cell nan_cell nan_cell nan_cell]\<rparr>"

text \<open>Two agents in two offices, with amounts in cents.\<close>

definition cents_sheet :: dataframe where
  "cents_sheet =
     \<lparr>columns = sheet_header,
      rows = [sheet_row (text_cell ''Ann'') (text_cell ''North'') (text_cell ''0.1'') (text_cell ''0.1''),
              sheet_row (text_cell ''Bob'') (text_cell ''South'') (text_cell ''0.2'') (text_cell ''0.3'')]\<rparr>"

text \<open>A sheet without a column for the agent.\<close>

definition no_agent_sheet :: dataframe where
  "no_agent_sheet =
     \<lparr>columns = [''Office'', ''Current''],
      rows = [sheet_row nan_cell (text_cell ''North'') (text_cell ''100'') nan_cell]\<rparr>"

text \<open>A database that raises on the insertion of the agent Bob and on nothing else.\<close>

definition rejects_bob :: sqlite where
  "rejects_bob = (\<lambda>db s. case s of InsertAgent a \<Rightarrow> agent_name a \<noteq> ''Bob'' | _ \<Rightarrow> True)"

text \<open>What the import of \<open>cents_sheet\<close> into the first baseline writes.\<close>

definition cents_agents :: "agent_performance_row list" where
  "cents_agents =
     [\<lparr>ap_baseline_id = 1, agent_name = ''Ann'', office = ''North'',
       current_month_promised = Fin 3602879701896397 (- 55),
       following_month_promised = Fin 3602879701896397 (- 55),
       total_promised = Fin 3602879701896397 (- 54), ap_import_date = ''2024-01-31''\<rparr>,
      \<lparr>ap_baseline_id = 1, agent_name = ''Bob'', office = ''South'',
       current_month_promised = Fin 3602879701896397 (- 54),
       following_month_promised = Fin 5404319552844595 (- 54),
       total_promised = Fin 1 (- 1), ap_import_date = ''2024-01-31''\<rparr>]"




text \<open>
  The connection after the import of \<open>cents_sheet\<close> has failed on the second agent: the
  first agent is in the table that the connection reads, and nothing is committed.
\<close>

definition bob_failed :: connection where
  "bob_failed =
     \<lparr>visible = \<lparr>baselines = [january], agent_performance = [hd cents_agents],
                  office_totals = [], company_totals = []\<rparr>,
      durable = \<lparr>baselines = [january], agent_performance = [], office_totals = [],
                  company_totals = []\<rparr>\<rparr>"

text \<open>
  One agent whose current amount is the text \<^verbatim>\<open>NAN\<close>, and the company totals that the
  import of this sheet into the second baseline writes.
\<close>

definition nan_sheet :: dataframe where
  "nan_sheet =
     \<lparr>columns = sheet_header,
      rows = [sheet_row (text_cell ''Ann'') (text_cell ''North'') (text_cell ''NAN'') (text_cell ''50'')]\<rparr>"

definition nan_totals :: company_totals_row where
  "nan_totals =
     \<lparr>ct_baseline_id = 2, total_current_month = NaN, total_following_month = Fin 25 1,
      ct_grand_total = NaN, total_agents = 1, total_offices = 1,
      ct_import_date = ''2024-02-29''\<rparr>"

text \<open>The company totals of an import in which every row is skipped.\<close>

definition zero_totals :: "int \<Rightarrow> string \<Rightarrow> company_totals_row" where
  "zero_totals bid import_date =
     \<lparr>ct_baseline_id = bid, total_current_month = Fin 0 0, total_following_month = Fin 0 0,
      ct_grand_total = Fin 0 0, total_agents = 0, total_offices = 0,
      ct_import_date = import_date\<rparr>"

text \<open>One agent whose office cell is empty.\<close>

definition blank_office_sheet :: dataframe where
  "blank_office_sheet =
     \<lparr>columns = sheet_header,
      rows = [sheet_row (text_cell ''Ann'') nan_cell (text_cell ''100'') (text_cell ''50'')]\<rparr>"

section \<open>Properties of the float operations\<close>

lemma normal_nonneg: "0 \<le> m \<Longrightarrow> fnonneg (normal m e)"
proof (induction m e rule: normal.induct)
  case (1 m e)
  show ?case
  proof (cases "m = 0")
    case True
    then show ?thesis by (subst normal.simps) simp
  next
    case False
    show ?thesis
    proof (cases "even m")
      case True
      from "1.prems" have "0 \<le> m div 2" by simp
      with "1.IH" False True have "fnonneg (normal (m div 2) (e + 1))" by simp
      with False True show ?thesis by (subst normal.simps) simp
    next
      case odd: False
      with False "1.prems" show ?thesis by (subst normal.simps) simp
    qed
  qed
qed

lemma round_half_even_nonneg: "0 \<le> num \<Longrightarrow> 0 \<le> den \<Longrightarrow> 0 \<le> round_half_even num den"
  by (auto simp: round_half_even_def Let_def div_int_pos_iff)

lemma scaled_round_nonneg: "0 \<le> p \<Longrightarrow> 0 \<le> q \<Longrightarrow> 0 \<le> scaled_round p q sh"
  by (simp add: scaled_round_def round_half_even_nonneg)

lemma round_pos_nonneg:
  assumes "round_pos p q x = Some (m, e)" "0 \<le> p" "0 \<le> q"
  shows "0 \<le> m"
proof -
  from assms(1) have "m = scaled_round p q (x - e)"
    by (auto simp: round_pos_def Let_def split: if_splits)
  with assms(2,3) show ?thesis
    by (simp add: scaled_round_nonneg)
qed

lemma round_double_nonneg: "0 \<le> p \<Longrightarrow> 0 \<le> q \<Longrightarrow> fnonneg (round_double p q x)"
proof -
  assume p: "0 \<le> p" and q: "0 \<le> q"
  show ?thesis
  proof (cases "p = 0")
    case True
    then show ?thesis by (simp add: round_double_def)
  next
    case False
    with p have pos: "0 < p" by simp
    show ?thesis
    proof (cases "round_pos \<bar>p\<bar> q x")
      case None
      with pos show ?thesis by (simp add: round_double_def)
    next
      case (Some me)
      obtain m e where me: "me = (m, e)" by (cases me)
      from Some me p q have "0 \<le> m" by (auto dest: round_pos_nonneg)
      with pos have "fnonneg (normal (sgn p * m) e)" by (intro normal_nonneg) simp
      with Some me pos show ?thesis by (simp add: round_double_def)
    qed
  qed
qed

lemma fadd_nonneg: "fnonneg a \<Longrightarrow> fnonneg b \<Longrightarrow> fnonneg (fadd a b)"
  by (cases a; cases b) (auto intro!: round_double_nonneg)

lemma truediv_positive: "fpositive b \<Longrightarrow> \<exists>q. truediv a b = Inr q"
  by (cases b; cases a) auto

lemma percent_cases:
  "(fpositive base \<and> (\<exists>q. truediv imp base = Inr q \<and> percent imp base = Inr (fmul q (float_of_int 100))))
   \<or> (\<not> fpositive base \<and> percent imp base = Inr (Fin 0 0))"
proof (cases "fpositive base")
  case True
  then obtain q where "truediv imp base = Inr q" using truediv_positive by blast
  with True show ?thesis by (simp add: percent_def)
next
  case False
  then show ?thesis by (simp add: percent_def)
qed

lemma round_double_zero: "round_double 0 q x = Fin 0 0"
  by (simp add: round_double_def)

lemmas float_eval =
  round_double_def round_pos_def leading_exponent_def scaled_round_def round_half_even_def
  bitlen.simps normal.simps Let_def

lemma float_500: "float_of_int 500 = Fin 125 2"
  by (simp add: float_of_int_def float_eval)

lemma fsub_500_0: "fsub (Fin 125 2) (Fin 0 0) = Fin 125 2"
  by (simp add: fsub_def float_eval)

section \<open>Evaluation on concrete sheets\<close>

text \<open>The table of \<open>lower_char\<close> on the characters of the examples.\<close>

lemma lower_char_table:
  "lower_char CHR ''A'' = CHR ''a''" "lower_char CHR ''B'' = CHR ''b''"
  "lower_char CHR ''C'' = CHR ''c''" "lower_char CHR ''D'' = CHR ''d''"
  "lower_char CHR ''E'' = CHR ''e''" "lower_char CHR ''F'' = CHR ''f''"
  "lower_char CHR ''G'' = CHR ''g''" "lower_char CHR ''H'' = CHR ''h''"
  "lower_char CHR ''I'' = CHR ''i''" "lower_char CHR ''J'' = CHR ''j''"
  "lower_char CHR ''K'' = CHR ''k''" "lower_char CHR ''L'' = CHR ''l''"
  "lower_char CHR ''M'' = CHR ''m''" "lower_char CHR ''N'' = CHR ''n''"
  "lower_char CHR ''O'' = CHR ''o''" "lower_char CHR ''P'' = CHR ''p''"
  "lower_char CHR ''Q'' = CHR ''q''" "lower_char CHR ''R'' = CHR ''r''"
  "lower_char CHR ''S'' = CHR ''s''" "lower_char CHR ''T'' = CHR ''t''"
  "lower_char CHR ''U'' = CHR ''u''" "lower_char CHR ''V'' = CHR ''v''"
  "lower_char CHR ''W'' = CHR ''w''" "lower_char CHR ''X'' = CHR ''x''"
  "lower_char CHR ''Y'' = CHR ''y''" "lower_char CHR ''Z'' = CHR ''z''"
  "lower_char CHR ''a'' = CHR ''a''" "lower_char CHR ''b'' = CHR ''b''"
  "lower_char CHR ''c'' = CHR ''c''" "lower_char CHR ''d'' = CHR ''d''"
  "lower_char CHR ''e'' = CHR ''e''" "lower_char CHR ''f'' = CHR ''f''"
  "lower_char CHR ''g'' = CHR ''g''" "lower_char CHR ''h'' = CHR ''h''"
  "lower_char CHR ''i'' = CHR ''i''" "lower_char CHR ''j'' = CHR ''j''"
  "lower_char CHR ''k'' = CHR ''k''" "lower_char CHR ''l'' = CHR ''l''"
  "lower_char CHR ''m'' = CHR ''m''" "lower_char CHR ''n'' = CHR ''n''"
  "lower_char CHR ''o'' = CHR ''o''" "lower_char CHR ''p'' = CHR ''p''"
  "lower_char CHR ''q'' = CHR ''q''" "lower_char CHR ''r'' = CHR ''r''"
  "lower_char CHR ''s'' = CHR ''s''" "lower_char CHR ''t'' = CHR ''t''"
  "lower_char CHR ''u'' = CHR ''u''" "lower_char CHR ''v'' = CHR ''v''"
  "lower_char CHR ''w'' = CHR ''w''" "lower_char CHR ''x'' = CHR ''x''"
  "lower_char CHR ''y'' = CHR ''y''" "lower_char CHR ''z'' = CHR ''z''"
  "lower_char CHR ''0'' = CHR ''0''" "lower_char CHR ''1'' = CHR ''1''"
  "lower_char CHR ''2'' = CHR ''2''" "lower_char CHR ''3'' = CHR ''3''"
  "lower_char CHR ''4'' = CHR ''4''" "lower_char CHR ''5'' = CHR ''5''"
  "lower_char CHR ''6'' = CHR ''6''" "lower_char CHR ''7'' = CHR ''7''"
  "lower_char CHR ''8'' = CHR ''8''" "lower_char CHR ''9'' = CHR ''9''"
  "lower_char CHR '' '' = CHR '' ''" "lower_char CHR ''.'' = CHR ''.''"
  "lower_char CHR ''_'' = CHR ''_''" "lower_char CHR ''-'' = CHR ''-''"
  "lower_char CHR ''/'' = CHR ''/''" "lower_char CHR ''$'' = CHR ''$''"
  "lower_char CHR '','' = CHR '',''"
  by (simp_all add: lower_char_def capital_letters_def small_letters_def)

lemmas string_eval = strip_def isspace_def lower_def lower_char_table remove_all_def

lemmas parse_eval =
  py_float_def to_ascii_def c_strip_def c_isspace_def sign_part_def float_number_def
  float_exponent_def digitpart_def isdigit_def digit_value_def nat_of_digits_def
  decimal_value_def

lemmas import_eval =
  process_dataframe_def if_col_def skipped_def agent_row_def accumulate_def
  office_row_def company_row_def execute_def fsum_def nan_cell_def text_cell_def
  sheet_row_def always_ok_def

lemma header_agent: "find_column sheet_header agent_names = Some ''Agent''"
  by (simp add: sheet_header_def agent_names_def string_eval)

lemma header_office: "find_column sheet_header office_names = Some ''Office''"
  by (simp add: sheet_header_def office_names_def string_eval)

lemma header_current: "find_column sheet_header current_names = Some ''Current''"
  by (simp add: sheet_header_def current_names_def string_eval)

lemma header_following: "find_column sheet_header following_names = Some ''Following''"
  by (simp add: sheet_header_def following_names_def string_eval)

lemmas header_eval = header_agent header_office header_current header_following

section \<open>Comparison\<close>

lemma real_column_number: "x \<noteq> NaN \<Longrightarrow> real_column x = Some x"
  by (simp add: real_column_def)

lemma sub_columns_numbers:
  "x \<noteq> NaN \<Longrightarrow> y \<noteq> NaN \<Longrightarrow> sub_columns (real_column x) (real_column y) = Inr (fsub x y)"
  by (simp add: sub_columns_def real_column_def)

lemma sub_columns_null: "sub_columns (real_column NaN) y = Inl TypeError"
  by (simp add: sub_columns_def real_column_def)

lemma compare_found:
  assumes "fetch_baseline c i1 = Inr (Some b1)" "fetch_baseline c i2 = Inr (Some b2)"
    and "fetch_company_totals c i1 = Inr (Some t1)" "fetch_company_totals c i2 = Inr (Some t2)"
    and "total_current_month t1 \<noteq> NaN" "total_current_month t2 \<noteq> NaN"
    and "total_following_month t1 \<noteq> NaN" "total_following_month t2 \<noteq> NaN"
    and "ct_grand_total t1 \<noteq> NaN" "ct_grand_total t2 \<noteq> NaN"
    and "percent (fsub (total_current_month t2) (total_current_month t1)) (total_current_month t1) = Inr p1"
    and "percent (fsub (total_following_month t2) (total_following_month t1)) (total_following_month t1) = Inr p2"
    and "percent (fsub (ct_grand_total t2) (ct_grand_total t1)) (ct_grand_total t1) = Inr p3"
  shows "compare_baselines c i1 i2 =
     Inr (Comparison
       \<lparr>name = baseline_name b1, date = baseline_date b1, grand_total = ct_grand_total t1\<rparr>
       \<lparr>name = baseline_name b2, date = baseline_date b2, grand_total = ct_grand_total t2\<rparr>
       \<lparr>current_month = fsub (total_current_month t2) (total_current_month t1),
        following_month = fsub (total_following_month t2) (total_following_month t1),
        imp_grand_total = fsub (ct_grand_total t2) (ct_grand_total t1),
        agent_change = total_agents t2 - total_agents t1,
        current_month_percent = p1, following_month_percent = p2, grand_total_percent = p3\<rparr>)"
  using assms by (simp add: compare_baselines_def Let_def sub_columns_numbers)

lemma percent_total: "\<exists>p. percent imp base = Inr p"
  using percent_cases [of base imp] by auto

lemma percent_positive:
  "fpositive base \<Longrightarrow> percent imp base = Inr p
    \<Longrightarrow> \<exists>q. truediv imp base = Inr q \<and> p = fmul q (float_of_int 100)"
  using percent_cases [of base imp] by auto

lemma percent_not_positive: "\<not> fpositive base \<Longrightarrow> percent imp base = Inr (Fin 0 0)"
  by (simp add: percent_def)

text \<open>
  When both baselines and both company totals exist and the six totals were written as
  numbers, \<open>compare_baselines\<close> returns a comparison: each change is the second total
  minus the first, the change in agents is the difference of the agent counts, and each
  percentage is the change divided by the first total times 100 when the first total is
  positive and exactly 0 otherwise. In particular a first grand total of 0 and a second of
  500 give a change of 500 and a percentage of 0.
\<close>

lemma compare_baselines_numbers:
  assumes "fetch_baseline c i1 = Inr (Some b1)" "fetch_baseline c i2 = Inr (Some b2)"
    and "fetch_company_totals c i1 = Inr (Some t1)" "fetch_company_totals c i2 = Inr (Some t2)"
    and "total_current_month t1 \<noteq> NaN" "total_current_month t2 \<noteq> NaN"
    and "total_following_month t1 \<noteq> NaN" "total_following_month t2 \<noteq> NaN"
    and "ct_grand_total t1 \<noteq> NaN" "ct_grand_total t2 \<noteq> NaN"
  shows "\<exists>imp.
     compare_baselines c i1 i2 =
       Inr (Comparison
         \<lparr>name = baseline_name b1, date = baseline_date b1, grand_total = ct_grand_total t1\<rparr>
         \<lparr>name = baseline_name b2, date = baseline_date b2, grand_total = ct_grand_total t2\<rparr>
         imp) \<and>
     current_month imp = fsub (total_current_month t2) (total_current_month t1) \<and>
     following_month imp = fsub (total_following_month t2) (total_following_month t1) \<and>
     imp_grand_total imp = fsub (ct_grand_total t2) (ct_grand_total t1) \<and>
     agent_change imp = total_agents t2 - total_agents t1 \<and>
     (if fpositive (total_current_month t1)
      then \<exists>q. truediv (current_month imp) (total_current_month t1) = Inr q \<and>
               current_month_percent imp = fmul q (float_of_int 100)
      else current_month_percent imp = Fin 0 0) \<and>
     (if fpositive (total_following_month t1)
      then \<exists>q. truediv (following_month imp) (total_following_month t1) = Inr q \<and>
               following_month_percent imp = fmul q (float_of_int 100)
      else following_month_percent imp = Fin 0 0) \<and>
     (if fpositive (ct_grand_total t1)
      then \<exists>q. truediv (imp_grand_total imp) (ct_grand_total t1) = Inr q \<and>
               grand_total_percent imp = fmul q (float_of_int 100)
      else grand_total_percent imp = Fin 0 0) \<and>
     (if ct_grand_total t1 = Fin 0 0 \<and> ct_grand_total t2 = float_of_int 500
      then grand_total_percent imp = Fin 0 0 \<and> imp_grand_total imp = float_of_int 500
      else True)"
proof -
  obtain p1 where p1:
    "percent (fsub (total_current_month t2) (total_current_month t1)) (total_current_month t1) = Inr p1"
    using percent_total by blast
  obtain p2 where p2:
    "percent (fsub (total_following_month t2) (total_following_month t1)) (total_following_month t1) = Inr p2"
    using percent_total by blast
  obtain p3 where p3:
    "percent (fsub (ct_grand_total t2) (ct_grand_total t1)) (ct_grand_total t1) = Inr p3"
    using percent_total by blast
  let ?imp = "\<lparr>current_month = fsub (total_current_month t2) (total_current_month t1),
        following_month = fsub (total_following_month t2) (total_following_month t1),
        imp_grand_total = fsub (ct_grand_total t2) (ct_grand_total t1),
        agent_change = total_agents t2 - total_agents t1,
        current_month_percent = p1, following_month_percent = p2, grand_total_percent = p3\<rparr>"
  have res: "compare_baselines c i1 i2 =
       Inr (Comparison
         \<lparr>name = baseline_name b1, date = baseline_date b1, grand_total = ct_grand_total t1\<rparr>
         \<lparr>name = baseline_name b2, date = baseline_date b2, grand_total = ct_grand_total t2\<rparr>
         ?imp)"
    using assms p1 p2 p3 by (rule compare_found)
  have c1: "if fpositive (total_current_month t1)
      then \<exists>q. truediv (current_month ?imp) (total_current_month t1) = Inr q \<and>
               current_month_percent ?imp = fmul q (float_of_int 100)
      else current_month_percent ?imp = Fin 0 0"
    using p1 percent_positive [OF _ p1] percent_not_positive [of "total_current_month t1"]
    by (cases "fpositive (total_current_month t1)") auto
  have c2: "if fpositive (total_following_month t1)
      then \<exists>q. truediv (following_month ?imp) (total_following_month t1) = Inr q \<and>
               following_month_percent ?imp = fmul q (float_of_int 100)
      else following_month_percent ?imp = Fin 0 0"
    using p2 percent_positive [OF _ p2] percent_not_positive [of "total_following_month t1"]
    by (cases "fpositive (total_following_month t1)") auto
  have c3: "if fpositive (ct_grand_total t1)
      then \<exists>q. truediv (imp_grand_total ?imp) (ct_grand_total t1) = Inr q \<and>
               grand_total_percent ?imp = fmul q (float_of_int 100)
      else grand_total_percent ?imp = Fin 0 0"
    using p3 percent_positive [OF _ p3] percent_not_positive [of "ct_grand_total t1"]
    by (cases "fpositive (ct_grand_total t1)") auto
  have c4: "if ct_grand_total t1 = Fin 0 0 \<and> ct_grand_total t2 = float_of_int 500
      then grand_total_percent ?imp = Fin 0 0 \<and> imp_grand_total ?imp = float_of_int 500
      else True"
  proof (cases "ct_grand_total t1 = Fin 0 0 \<and> ct_grand_total t2 = float_of_int 500")
    case True
    then have "\<not> fpositive (ct_grand_total t1)" by simp
    with p3 have "p3 = Fin 0 0" by (simp add: percent_def)
    with True show ?thesis by (simp add: float_500 fsub_500_0)
  next
    case False
    then show ?thesis by auto
  qed
  from res c1 c2 c3 c4 show ?thesis
    by (intro exI [of _ ?imp]) simp
qed

lemma sqlite_integer_small: "sqlite_integer 1" "sqlite_integer 2" "sqlite_integer 7"
  "sqlite_integer 8" "sqlite_integer 999"
  by (simp_all add: sqlite_integer_def)

lemma fetch_january: "fetch_baseline two_months 1 = Inr (Some january)"
  by (simp add: fetch_baseline_def sqlite_integer_small two_months_def january_def)

lemma fetch_february: "fetch_baseline two_months 2 = Inr (Some february)"
  by (simp add: fetch_baseline_def sqlite_integer_small two_months_def january_def february_def)

lemma fetch_january_totals: "fetch_company_totals two_months 1 = Inr (Some january_totals)"
  by (simp add: fetch_company_totals_def sqlite_integer_small two_months_def january_totals_def)

lemma fetch_february_totals: "fetch_company_totals two_months 2 = Inr (Some february_totals)"
  by (simp add: fetch_company_totals_def sqlite_integer_small two_months_def january_totals_def
        february_totals_def)

text \<open>The first baseline with a grand total of 0 and the second with a grand total of 500.\<close>

lemma compare_two_months:
  "\<exists>imp.
     compare_baselines two_months 1 2 =
       Inr (Comparison
         \<lparr>name = ''January'', date = ''2024-01-31'', grand_total = Fin 0 0\<rparr>
         \<lparr>name = ''February'', date = ''2024-02-29'', grand_total = Fin 125 2\<rparr>
         imp) \<and>
     imp_grand_total imp = Fin 125 2 \<and> agent_change imp = 3 \<and>
     current_month_percent imp = Fin 0 0 \<and> following_month_percent imp = Fin 0 0 \<and>
     grand_total_percent imp = Fin 0 0"
  using compare_baselines_numbers
    [OF fetch_january fetch_february fetch_january_totals fetch_february_totals]
  by (auto simp: january_def february_def january_totals_def february_totals_def
        float_500 fsub_500_0)

subsection \<open>A total that was not a number\<close>

lemma nan_import:
  "process_dataframe always_ok ''2024-02-29'' one_month nan_sheet 2 =
     (True,
      \<lparr>visible = \<lparr>baselines = [january, february],
          agent_performance =
            [\<lparr>ap_baseline_id = 2, agent_name = ''Ann'', office = ''North'',
              current_month_promised = NaN, following_month_promised = Fin 25 1,
              total_promised = NaN, ap_import_date = ''2024-02-29''\<rparr>],
          office_totals =
            [\<lparr>ot_baseline_id = 2, ot_office = ''North'', current_month_total = NaN,
              following_month_total = Fin 25 1, ot_grand_total = NaN, agent_count = 1,
              ot_import_date = ''2024-02-29''\<rparr>],
          company_totals = [january_totals, nan_totals]\<rparr>,
       durable = \<lparr>baselines = [january, february],
          agent_performance =
            [\<lparr>ap_baseline_id = 2, agent_name = ''Ann'', office = ''North'',
              current_month_promised = NaN, following_month_promised = Fin 25 1,
              total_promised = NaN, ap_import_date = ''2024-02-29''\<rparr>],
          office_totals =
            [\<lparr>ot_baseline_id = 2, ot_office = ''North'', current_month_total = NaN,
              following_month_total = Fin 25 1, ot_grand_total = NaN, agent_count = 1,
              ot_import_date = ''2024-02-29''\<rparr>],
          company_totals = [january_totals, nan_totals]\<rparr>\<rparr>)"
  by (simp add: one_month_def nan_sheet_def nan_totals_def header_eval import_eval
        safe_float_def parse_eval string_eval float_eval)

text \<open>
  C2. The differences are computed with no test of the totals that were read. A sheet
  with the amount \<^verbatim>\<open>NAN\<close> is imported with success into the second baseline;
  \<open>safe_float\<close> reads that amount as \<open>NaN\<close>, the current total and the grand total of the
  company are \<open>NaN\<close>, and SQLite keeps them as \<^verbatim>\<open>NULL\<close>. Both baselines and both rows
  of company totals exist then, and \<open>compare_baselines\<close> raises \<^verbatim>\<open>TypeError\<close> on the
  first difference.
\<close>

theorem compare_after_nan_import:
  "fst (process_dataframe always_ok ''2024-02-29'' one_month nan_sheet 2) = True \<and>
   fetch_baseline
     (snd (process_dataframe always_ok ''2024-02-29'' one_month nan_sheet 2)) 1
     = Inr (Some january) \<and>
   fetch_baseline
     (snd (process_dataframe always_ok ''2024-02-29'' one_month nan_sheet 2)) 2
     = Inr (Some february) \<and>
   fetch_company_totals
     (snd (process_dataframe always_ok ''2024-02-29'' one_month nan_sheet 2)) 1
     = Inr (Some january_totals) \<and>
   fetch_company_totals
     (snd (process_dataframe always_ok ''2024-02-29'' one_month nan_sheet 2)) 2
     = Inr (Some nan_totals) \<and>
   real_column (total_current_month nan_totals) = None \<and>
   compare_baselines
     (snd (process_dataframe always_ok ''2024-02-29'' one_month nan_sheet 2)) 1 2
     = Inl TypeError"
  by (simp add: nan_import compare_baselines_def fetch_baseline_def fetch_company_totals_def
        sqlite_integer_small january_def february_def january_totals_def nan_totals_def
        real_column_def sub_columns_def)

subsection \<open>A baseline that is not there\<close>

text \<open>
  C5, as the code has it. For two ids that SQLite can bind (integers of 64 bits, signed):
  when a baseline row or a company totals row is missing for either id,
  \<open>compare_baselines\<close> returns the dictionary with the key \<^verbatim>\<open>"error"\<close>; it does not raise.
\<close>

theorem compare_baselines_not_found:
  assumes "sqlite_integer i1" "sqlite_integer i2"
    and "fetch_baseline c i1 = Inr None \<or> fetch_baseline c i2 = Inr None \<or>
         fetch_company_totals c i1 = Inr None \<or> fetch_company_totals c i2 = Inr None"
  shows "compare_baselines c i1 i2 = Inr (Error ''One or both baselines not found'') \<or>
         compare_baselines c i1 i2 =
           Inr (Error ''Company totals not found for one or both baselines'')"
  using assms
  by (auto simp: compare_baselines_def fetch_baseline_def fetch_company_totals_def
      split: option.splits)

lemma fetch_missing_totals: "fetch_company_totals one_month 2 = Inr None"
  by (simp add: fetch_company_totals_def sqlite_integer_small one_month_def january_totals_def)

lemma fetch_missing_baseline: "fetch_baseline fresh 7 = Inr None"
  by (simp add: fetch_baseline_def sqlite_integer_small fresh_def empty_database_def)

lemma compare_one_month:
  "compare_baselines one_month 1 2 =
     Inr (Error ''Company totals not found for one or both baselines'')"
  by (simp add: compare_baselines_def fetch_baseline_def fetch_company_totals_def
        sqlite_integer_small one_month_def january_def february_def january_totals_def)

lemma compare_fresh:
  "compare_baselines fresh 7 8 = Inr (Error ''One or both baselines not found'')"
  by (simp add: compare_baselines_def fetch_baseline_def sqlite_integer_small fresh_def
        empty_database_def)

theorem compare_baselines_not_found_witness:
  "sqlite_integer 1 \<and> sqlite_integer 2 \<and>
   fetch_company_totals one_month 2 = Inr None \<and>
   compare_baselines one_month 1 2 =
     Inr (Error ''Company totals not found for one or both baselines'') \<and>
   sqlite_integer 7 \<and> sqlite_integer 8 \<and>
   fetch_baseline fresh 7 = Inr None \<and>
   compare_baselines fresh 7 8 = Inr (Error ''One or both baselines not found'')"
  using compare_baselines_not_found [of 1 2 one_month]
        compare_baselines_not_found [of 7 8 fresh]
        fetch_missing_totals fetch_missing_baseline compare_one_month compare_fresh
        sqlite_integer_small
  by simp

text \<open>
  An id that SQLite cannot bind: the store holds the baselines 1 and 2 and none with the
  id \<open>2 ^ 63\<close>, and the comparison of that id with the first baseline raises
  \<^verbatim>\<open>OverflowError\<close>.
\<close>

theorem compare_baselines_overflow_counterexample:
  "map baseline_id (baselines (visible two_months)) = [1, 2] \<and>
   compare_baselines two_months (2 ^ 63) 1 = Inl OverflowError \<and>
   compare_baselines two_months 1 (2 ^ 63) = Inl OverflowError"
  by (simp add: compare_baselines_def fetch_baseline_def fetch_company_totals_def
        sqlite_integer_def two_months_def january_def february_def january_totals_def
        february_totals_def)

section \<open>Import\<close>

lemma execute_Some: "execute ok c s = Some c1 \<Longrightarrow> c1 = apply_statement c s"
  by (simp add: execute_def split: if_splits)

lemma agent_row_total:
  "total_promised (agent_row bid d oc cc fc agent r) =
     fadd (current_month_promised (agent_row bid d oc cc fc agent r))
          (following_month_promised (agent_row bid d oc cc fc agent r))"
  by (simp add: agent_row_def Let_def)

lemma agent_row_baseline: "ap_baseline_id (agent_row bid d oc cc fc agent r) = bid"
  by (simp add: agent_row_def Let_def)

lemma insert_agents_skip_all:
  "\<forall>r\<in>set rs. skipped (strip (str (r ac)))
    \<Longrightarrow> insert_agents ok bid d ac oc cc fc rs c n ot = (c, Some (n, ot))"
  by (induction rs) (simp_all add: Let_def)

lemma insert_agents_effect:
  "insert_agents ok bid d ac oc cc fc rs c n ot = (c1, res) \<Longrightarrow>
     durable c1 = durable c \<and>
     baselines (visible c1) = baselines (visible c) \<and>
     office_totals (visible c1) = office_totals (visible c) \<and>
     company_totals (visible c1) = company_totals (visible c) \<and>
     (\<exists>new. agent_performance (visible c1) = agent_performance (visible c) @ new \<and>
        (\<forall>a\<in>set new.
           ap_baseline_id a = bid \<and>
           total_promised a = fadd (current_month_promised a) (following_month_promised a)))"
proof (induction rs arbitrary: c n ot)
  case Nil
  then show ?case by simp
next
  case (Cons r rs)
  let ?agent = "strip (str (r ac))"
  let ?a = "agent_row bid d oc cc fc ?agent r"
  show ?case
  proof (cases "skipped ?agent")
    case True
    with Cons.prems have "insert_agents ok bid d ac oc cc fc rs c n ot = (c1, res)"
      by (simp add: Let_def)
    then show ?thesis by (rule Cons.IH)
  next
    case False
    show ?thesis
    proof (cases "execute ok c (InsertAgent ?a)")
      case None
      with False Cons.prems have "c1 = c" by (simp add: Let_def)
      then show ?thesis by simp
    next
      case (Some c2)
      then have c2: "c2 = apply_statement c (InsertAgent ?a)" by (rule execute_Some)
      from False Some Cons.prems have
        "insert_agents ok bid d ac oc cc fc rs c2 (n + 1)
           (accumulate ot (office ?a) (current_month_promised ?a) (following_month_promised ?a))
         = (c1, res)"
        by (simp add: Let_def)
      from Cons.IH [OF this] obtain new where
        frame: "durable c1 = durable c2" "baselines (visible c1) = baselines (visible c2)"
          "office_totals (visible c1) = office_totals (visible c2)"
          "company_totals (visible c1) = company_totals (visible c2)"
        and new: "agent_performance (visible c1) = agent_performance (visible c2) @ new"
          "\<forall>a\<in>set new. ap_baseline_id a = bid \<and>
             total_promised a = fadd (current_month_promised a) (following_month_promised a)"
        by blast
      from new(1) c2 have "agent_performance (visible c1) = agent_performance (visible c) @ (?a # new)"
        by simp
      moreover from new(2) have "\<forall>a\<in>set (?a # new). ap_baseline_id a = bid \<and>
             total_promised a = fadd (current_month_promised a) (following_month_promised a)"
        by (simp add: agent_row_total agent_row_baseline)
      ultimately show ?thesis using frame c2 by (intro conjI exI [of _ "?a # new"]) simp_all
    qed
  qed
qed

lemma insert_offices_effect:
  "insert_offices ok bid d ot c = (c1, b) \<Longrightarrow>
     durable c1 = durable c \<and>
     baselines (visible c1) = baselines (visible c) \<and>
     agent_performance (visible c1) = agent_performance (visible c) \<and>
     company_totals (visible c1) = company_totals (visible c) \<and>
     (b \<longrightarrow> office_totals (visible c1) = office_totals (visible c) @ map (office_row bid d) ot)"
proof (induction ot arbitrary: c)
  case Nil
  then show ?case by auto
next
  case (Cons entry ot)
  show ?case
  proof (cases "execute ok c (InsertOffice (office_row bid d entry))")
    case None
    with Cons.prems show ?thesis by auto
  next
    case (Some c2)
    then have c2: "c2 = apply_statement c (InsertOffice (office_row bid d entry))"
      by (rule execute_Some)
    from Some Cons.prems have "insert_offices ok bid d ot c2 = (c1, b)" by simp
    from Cons.IH [OF this] c2 show ?thesis by simp
  qed
qed




subsection \<open>What a successful import writes\<close>






subsection \<open>An import that fails\<close>

lemma bob_import:
  "process_dataframe rejects_bob ''2024-01-31'' january_store cents_sheet 1 = (False, bob_failed)"
  by (simp add: january_store_def cents_sheet_def bob_failed_def cents_agents_def rejects_bob_def
        header_eval import_eval safe_float_def parse_eval string_eval float_eval)

lemma no_agent_column: "find_column (columns no_agent_sheet) agent_names = None"
  by (simp add: no_agent_sheet_def agent_names_def string_eval)

lemma process_dataframe_effect:
  assumes "process_dataframe ok d c df bid = (b, c4)"
  shows "baselines (visible c4) = baselines (visible c) \<and> (\<not> b \<longrightarrow> durable c4 = durable c)"
proof (cases "if_col (find_column (columns df) agent_names) (\<lambda>ac. True) False")
  case False
  with assms have "c4 = c"
    by (auto simp: process_dataframe_def Let_def if_col_def split: option.splits if_splits)
  then show ?thesis by simp
next
  case True
  then obtain ac where ac: "find_column (columns df) agent_names = Some ac" "ac \<noteq> []"
    by (auto simp: if_col_def split: option.splits if_splits)
  obtain c1 res where agents:
    "insert_agents ok bid d ac (find_column (columns df) office_names)
       (find_column (columns df) current_names) (find_column (columns df) following_names)
       (rows df) c 0 [] = (c1, res)"
    by (cases "insert_agents ok bid d ac (find_column (columns df) office_names)
       (find_column (columns df) current_names) (find_column (columns df) following_names)
       (rows df) c 0 []")
  from insert_agents_effect [OF agents] have e1:
    "durable c1 = durable c" "baselines (visible c1) = baselines (visible c)"
    by simp_all
  show ?thesis
  proof (cases res)
    case None
    with assms ac agents have "c4 = c1" "\<not> b"
      by (simp_all add: process_dataframe_def Let_def if_col_def)
    with e1 show ?thesis by simp
  next
    case (Some p)
    obtain n ot where p: "p = (n, ot)" by (cases p)
    obtain c2 b2 where offices: "insert_offices ok bid d ot c1 = (c2, b2)"
      by (cases "insert_offices ok bid d ot c1")
    from insert_offices_effect [OF offices] have e2:
      "durable c2 = durable c1" "baselines (visible c2) = baselines (visible c1)"
      by simp_all
    show ?thesis
    proof (cases b2)
      case False
      with assms ac agents Some p offices have "c4 = c2" "\<not> b"
        by (simp_all add: process_dataframe_def Let_def if_col_def)
      with e1 e2 show ?thesis by simp
    next
      case True
      show ?thesis
      proof (cases "execute ok c2 (InsertCompany (company_row bid d n ot))")
        case None
        with assms ac agents Some p offices True have "c4 = c2" "\<not> b"
          by (simp_all add: process_dataframe_def Let_def if_col_def)
        with e1 e2 show ?thesis by simp
      next
        case (Some c3)
        then have c3: "c3 = apply_statement c2 (InsertCompany (company_row bid d n ot))"
          by (rule execute_Some)
        show ?thesis
        proof (cases "execute ok c3 Commit")
          case None
          with assms ac agents \<open>res = Some p\<close> p offices True Some have "c4 = c3" "\<not> b"
            by (simp_all add: process_dataframe_def Let_def if_col_def)
          with e1 e2 c3 show ?thesis by simp
        next
          case (Some c5)
          then have c5: "c5 = apply_statement c3 Commit" by (rule execute_Some)
          from assms ac agents \<open>res = Some p\<close> p offices True
            \<open>execute ok c2 (InsertCompany (company_row bid d n ot)) = Some c3\<close> Some
          have "c4 = c5" "b"
            by (simp_all add: process_dataframe_def Let_def if_col_def)
          with e1 e2 c3 c5 show ?thesis by simp
        qed
      qed
    qed
  qed
qed

text \<open>
  When the agent column is not found, the import returns \<open>False\<close> and leaves the
  connection exactly as it was. Every import that returns \<open>False\<close> commits nothing and
  leaves the baselines alone.
\<close>

lemma failed_import_commits_nothing:
  "(find_column (columns df) agent_names = None \<longrightarrow>
      process_dataframe ok d c df bid = (False, c)) \<and>
   (process_dataframe ok d c df bid = (False, c1) \<longrightarrow>
      durable c1 = durable c \<and> baselines (visible c1) = baselines (visible c))"
proof (intro conjI impI)
  assume "find_column (columns df) agent_names = None"
  then show "process_dataframe ok d c df bid = (False, c)"
    by (simp add: process_dataframe_def Let_def if_col_def)
next
  assume "process_dataframe ok d c df bid = (False, c1)"
  from process_dataframe_effect [OF this]
  show "durable c1 = durable c" "baselines (visible c1) = baselines (visible c)"
    by simp_all
qed

lemma no_agent_import:
  "process_dataframe always_ok ''2024-01-31'' january_store no_agent_sheet 1
     = (False, january_store)"
  using failed_import_commits_nothing
          [of no_agent_sheet always_ok "''2024-01-31''" january_store 1 january_store]
        no_agent_column
  by simp

subsection \<open>An import in which every row is skipped\<close>

lemma fadd_zero_zero: "fadd (Fin 0 0) (Fin 0 0) = Fin 0 0"
  by (simp add: round_double_zero)

lemma company_row_empty: "company_row bid d 0 [] = zero_totals bid d"
  by (simp add: company_row_def zero_totals_def fsum_def Let_def round_double_zero)

lemma import_skipping_every_row:
  assumes "find_column (columns df) agent_names = Some ac" "ac \<noteq> []"
    and "\<forall>r\<in>set (rows df). skipped (strip (str (r ac)))"
    and "ok (visible c) (InsertCompany (zero_totals bid d))"
    and "ok ((visible c)\<lparr>company_totals := company_totals (visible c) @ [zero_totals bid d]\<rparr>) Commit"
  shows "process_dataframe ok d c df bid =
     (True,
      \<lparr>visible = (visible c)\<lparr>company_totals := company_totals (visible c) @ [zero_totals bid d]\<rparr>,
       durable = (visible c)\<lparr>company_totals := company_totals (visible c) @ [zero_totals bid d]\<rparr>\<rparr>)"
  using assms
  by (simp add: process_dataframe_def Let_def if_col_def insert_agents_skip_all
        company_row_empty execute_def)

lemma contains_empty: "contains [] x = (x = [])"
  by simp

lemma find_column_agent_nonempty: "find_column cols agent_names = Some ac \<Longrightarrow> ac \<noteq> []"
proof (induction cols)
  case Nil
  then show ?case by simp
next
  case (Cons col cols)
  show ?case
  proof (cases "col = []")
    case True
    then have "\<not> list_ex (\<lambda>name. contains (lower col) (lower name)) agent_names"
      by (simp add: agent_names_def lower_def)
    with Cons show ?thesis by simp
  next
    case False
    with Cons show ?thesis by (auto split: if_splits)
  qed
qed

text \<open>
  C10. When the agent column is found and every row is skipped, and the database executes
  the one insertion and the commit, the import returns \<open>True\<close>. It has then written no
  agent row and no office row, and one company row for the baseline, with both totals,
  the grand total and the counts of agents and offices all zero; and it has committed.
\<close>

theorem import_all_rows_skipped:
  assumes "find_column (columns df) agent_names = Some ac"
    and "\<forall>r\<in>set (rows df). skipped (strip (str (r ac)))"
    and "ok (visible c) (InsertCompany (zero_totals bid d))"
    and "ok ((visible c)\<lparr>company_totals := company_totals (visible c) @ [zero_totals bid d]\<rparr>) Commit"
  shows "\<exists>c1. process_dataframe ok d c df bid = (True, c1) \<and>
     agent_performance (visible c1) = agent_performance (visible c) \<and>
     office_totals (visible c1) = office_totals (visible c) \<and>
     company_totals (visible c1) = company_totals (visible c) @ [zero_totals bid d] \<and>
     durable c1 = visible c1 \<and>
     ct_baseline_id (zero_totals bid d) = bid \<and>
     total_current_month (zero_totals bid d) = Fin 0 0 \<and>
     total_following_month (zero_totals bid d) = Fin 0 0 \<and>
     ct_grand_total (zero_totals bid d) = Fin 0 0 \<and>
     total_agents (zero_totals bid d) = 0 \<and>
     total_offices (zero_totals bid d) = 0"
proof -
  from assms(1) have "ac \<noteq> []" by (rule find_column_agent_nonempty)
  from import_skipping_every_row [OF assms(1) this assms(2-4)]
  show ?thesis by (simp add: zero_totals_def)
qed

lemma totals_only_skipped:
  "\<forall>r\<in>set (rows totals_only). skipped (strip (str (r ''Agent'')))"
  by (simp add: totals_only_def sheet_row_def text_cell_def nan_cell_def skipped_def string_eval)

lemma totals_only_header: "find_column (columns totals_only) agent_names = Some ''Agent''"
  by (simp add: totals_only_def header_agent)

theorem import_all_rows_skipped_witness:
  "\<exists>c1. process_dataframe always_ok ''2024-01-31'' january_store totals_only 1 = (True, c1) \<and>
     agent_performance (visible c1) = [] \<and>
     office_totals (visible c1) = [] \<and>
     company_totals (visible c1) = [zero_totals 1 ''2024-01-31''] \<and>
     durable c1 = visible c1"
  using import_all_rows_skipped
          [of totals_only "''Agent''" always_ok january_store 1 "''2024-01-31''",
           OF totals_only_header totals_only_skipped]
  by (auto simp: always_ok_def january_store_def)

subsection \<open>After a failed import\<close>

lemma later_import:
  "process_dataframe always_ok ''2024-02-29'' bob_failed totals_only 2 =
     (True,
      \<lparr>visible = (visible bob_failed)
         \<lparr>company_totals := company_totals (visible bob_failed) @ [zero_totals 2 ''2024-02-29'']\<rparr>,
       durable = (visible bob_failed)
         \<lparr>company_totals := company_totals (visible bob_failed) @ [zero_totals 2 ''2024-02-29'']\<rparr>\<rparr>)"
  using import_skipping_every_row
          [of totals_only "''Agent''" always_ok bob_failed 2 "''2024-02-29''",
           OF totals_only_header _ totals_only_skipped]
  by (simp add: always_ok_def)

text \<open>
  C3. The handler of \<^verbatim>\<open>_process_dataframe\<close> returns \<open>False\<close> and does not roll back.
  The two agents are imported into a store with no agent rows, and the database raises on
  the second insertion: the import returns \<open>False\<close>, the row of the first agent stays in
  the table that the connection reads, and the next import that succeeds commits it.
  Nothing of the kind happens when it is the agent column that is missing.
\<close>

theorem failed_import_keeps_rows:
  "agent_performance (visible january_store) = [] \<and>
   fst (process_dataframe rejects_bob ''2024-01-31'' january_store cents_sheet 1) = False \<and>
   map agent_name (agent_performance (visible (snd
     (process_dataframe rejects_bob ''2024-01-31'' january_store cents_sheet 1)))) = [''Ann''] \<and>
   agent_performance (durable (snd
     (process_dataframe rejects_bob ''2024-01-31'' january_store cents_sheet 1))) = [] \<and>
   fst (process_dataframe always_ok ''2024-02-29''
     (snd (process_dataframe rejects_bob ''2024-01-31'' january_store cents_sheet 1))
     totals_only 2) = True \<and>
   map agent_name (agent_performance (durable (snd
     (process_dataframe always_ok ''2024-02-29''
        (snd (process_dataframe rejects_bob ''2024-01-31'' january_store cents_sheet 1))
        totals_only 2)))) = [''Ann''] \<and>
   process_dataframe always_ok ''2024-01-31'' january_store no_agent_sheet 1
     = (False, january_store)"
  by (simp add: bob_import later_import no_agent_import)
     (simp add: bob_failed_def january_store_def cents_agents_def)

section \<open>Report\<close>

lemma float_of_int_zero: "float_of_int 0 = Fin 0 0"
  by (simp add: float_of_int_def round_double_zero)

lemma report_for_no_baseline: "fetch_baseline c i = Inr None \<Longrightarrow> report_for c i = Inl TypeError"
  by (simp add: report_for_def fetch_baseline_def fetch_company_totals_def split: if_splits)

lemma report_for_no_totals:
  "fetch_baseline c i = Inr (Some b) \<Longrightarrow> fetch_company_totals c i = Inr None
    \<Longrightarrow> report_for c i = Inl TypeError"
  by (simp add: report_for_def)

lemma report_for_no_agents:
  "fetch_baseline c i = Inr (Some b) \<Longrightarrow> fetch_company_totals c i = Inr (Some t)
    \<Longrightarrow> total_current_month t \<noteq> NaN \<Longrightarrow> total_following_month t \<noteq> NaN
    \<Longrightarrow> ct_grand_total t \<noteq> NaN \<Longrightarrow> total_agents t = 0
    \<Longrightarrow> report_for c i = Inl ZeroDivisionError"
  by (cases "ct_grand_total t") (simp_all add: report_for_def real_column_def float_of_int_zero)

lemma report_for_null:
  "fetch_baseline c i = Inr (Some b) \<Longrightarrow> fetch_company_totals c i = Inr (Some t)
    \<Longrightarrow> total_current_month t = NaN \<or> total_following_month t = NaN \<or> ct_grand_total t = NaN
    \<Longrightarrow> report_for c i = Inl TypeError"
  by (auto simp: report_for_def real_column_def split: option.splits)

lemma totals_only_import:
  "process_dataframe always_ok ''2024-01-31'' january_store totals_only 1 =
     (True,
      \<lparr>visible = \<lparr>baselines = [january], agent_performance = [], office_totals = [],
                   company_totals = [zero_totals 1 ''2024-01-31'']\<rparr>,
       durable = \<lparr>baselines = [january], agent_performance = [], office_totals = [],
                   company_totals = [zero_totals 1 ''2024-01-31'']\<rparr>\<rparr>)"
  using import_skipping_every_row
          [of totals_only "''Agent''" always_ok january_store 1 "''2024-01-31''",
           OF totals_only_header _ totals_only_skipped]
  by (simp add: always_ok_def january_store_def)

text \<open>
  C4. The report divides the grand total by the number of agents with no test of the
  divisor. A sheet that holds a total line and an empty line only is imported with
  success into the first baseline; its company row counts zero agents, and the report of
  that baseline raises \<^verbatim>\<open>ZeroDivisionError\<close>.
\<close>

theorem report_of_import_without_agents:
  "fst (process_dataframe always_ok ''2024-01-31'' january_store totals_only 1) = True \<and>
   map total_agents (company_totals (visible (snd
     (process_dataframe always_ok ''2024-01-31'' january_store totals_only 1)))) = [0] \<and>
   generate_progress_report
     (snd (process_dataframe always_ok ''2024-01-31'' january_store totals_only 1)) (Some 1)
     = Inl ZeroDivisionError"
  by (simp add: totals_only_import generate_progress_report_def report_for_def
        fetch_baseline_def fetch_company_totals_def sqlite_integer_small january_def
        zero_totals_def real_column_def float_of_int_zero)

text \<open>
  C6. The report subscripts the rows that \<^verbatim>\<open>fetchone()\<close> returns with no test for
  \<^verbatim>\<open>None\<close>. For an id with no baseline row, and for a baseline with no company
  totals, it raises \<^verbatim>\<open>TypeError\<close>.
\<close>

theorem report_of_missing_baseline:
  "generate_progress_report fresh (Some 999) = Inl TypeError \<and>
   fetch_baseline one_month 2 = Inr (Some february) \<and>
   generate_progress_report one_month (Some 2) = Inl TypeError"
  by (simp add: generate_progress_report_def report_for_def fetch_baseline_def
        fetch_company_totals_def sqlite_integer_small fresh_def empty_database_def
        one_month_def january_def february_def january_totals_def)

section \<open>The office of an agent\<close>

lemma office_unresolved:
  "office (agent_row bid d None cc fc agent r) = ''Unknown''"
  by (simp add: agent_row_def if_col_def Let_def)

lemma office_resolved:
  "oc \<noteq> [] \<Longrightarrow> office (agent_row bid d (Some oc) cc fc agent r) = strip (str (r oc))"
  by (simp add: agent_row_def if_col_def Let_def)

text \<open>
  C9. The office is \<^verbatim>\<open>'Unknown'\<close> only when no office column was found. On a sheet
  with an office column, an agent whose office cell is empty is stored with the office
  \<^verbatim>\<open>'nan'\<close>, the text of the empty cell, and an office of that name is totalled.
\<close>

theorem office_of_empty_cell:
  "find_column (columns blank_office_sheet) office_names = Some ''Office'' \<and>
   map (\<lambda>r. isna (r ''Office'')) (rows blank_office_sheet) = [True] \<and>
   map office (agent_performance (visible (snd
     (process_dataframe always_ok ''2024-01-31'' january_store blank_office_sheet 1))))
     = [''nan''] \<and>
   map ot_office (office_totals (visible (snd
     (process_dataframe always_ok ''2024-01-31'' january_store blank_office_sheet 1))))
     = [''nan'']"
  by (simp add: january_store_def blank_office_sheet_def header_eval import_eval safe_float_def
        parse_eval string_eval float_eval)

section \<open>Reading a currency cell\<close>

lemma set_c_strip: "set (c_strip s) \<subseteq> set s"
proof
  fix x assume "x \<in> set (c_strip s)"
  then have "x \<in> set (dropWhile c_isspace (rev (dropWhile c_isspace s)))"
    by (simp add: c_strip_def)
  then have "x \<in> set (rev (dropWhile c_isspace s))" by (rule set_dropWhileD)
  then have "x \<in> set (dropWhile c_isspace s)" by simp
  then show "x \<in> set s" by (rule set_dropWhileD)
qed

lemma transform_minus:
  "CHR ''-'' \<notin> set s \<Longrightarrow> CHR ''-'' \<notin> set (transform_decimal_and_space s)"
  by (induction s) auto

lemma to_ascii_minus: "CHR ''-'' \<notin> set s \<Longrightarrow> CHR ''-'' \<notin> set (to_ascii s)"
  by (simp add: to_ascii_def transform_minus)

lemma sign_part_minus: "sign_part s = (True, r) \<Longrightarrow> CHR ''-'' \<in> set s"
  by (auto simp: sign_part_def split: list.splits if_splits)

lemma normal_not_NaN: "normal m e \<noteq> NaN"
proof (induction m e rule: normal.induct)
  case (1 m e)
  show ?case
  proof (cases "m \<noteq> 0 \<and> even m")
    case True
    with "1.IH" have "normal (m div 2) (e + 1) \<noteq> NaN" by simp
    with True show ?thesis by (subst normal.simps) simp
  next
    case False
    then show ?thesis by (subst normal.simps) auto
  qed
qed

lemma round_double_not_NaN: "round_double p q x \<noteq> NaN"
  by (simp add: round_double_def normal_not_NaN split: option.splits prod.splits)

lemma decimal_value_not_NaN: "decimal_value neg d k \<noteq> NaN"
  by (simp add: decimal_value_def Let_def round_double_not_NaN)

lemma decimal_value_nonneg: "fnonneg (decimal_value False d k)"
  by (simp add: decimal_value_def Let_def round_double_nonneg)

lemma py_float_cases:
  assumes "py_float s = Some v"
  obtains neg r where "sign_part (c_strip (to_ascii s)) = (neg, r)"
    "v = (if neg then NegInf else PosInf) \<or> (v = NaN \<and> lower r = ''nan'')
      \<or> (\<exists>d k. v = decimal_value neg d k)"
proof -
  obtain neg r where sp: "sign_part (c_strip (to_ascii s)) = (neg, r)"
    by (cases "sign_part (c_strip (to_ascii s))")
  have "v = (if neg then NegInf else PosInf) \<or> (v = NaN \<and> lower r = ''nan'')
      \<or> (\<exists>d k. v = decimal_value neg d k)"
  proof (cases "lower r = ''inf'' \<or> lower r = ''infinity''")
    case True
    with assms sp show ?thesis by (auto simp: py_float_def)
  next
    case names: False
    show ?thesis
    proof (cases "lower r = ''nan''")
      case True
      with assms sp names show ?thesis by (simp add: py_float_def)
    next
      case False
      from assms sp names False obtain ip fp r1 where number: "float_number r = Some (ip, fp, r1)"
        by (cases "float_number r") (auto simp: py_float_def)
      from assms sp names False number obtain ex r2
        where exponent: "float_exponent r1 = Some (ex, r2)"
        by (cases "float_exponent r1") (auto simp: py_float_def)
      from assms sp names False number exponent
      have "v = decimal_value neg (nat_of_digits (ip @ fp)) (ex - int (length fp))"
        by (simp add: py_float_def split: if_splits)
      then show ?thesis by blast
    qed
  qed
  with sp show ?thesis by (rule that)
qed

lemma py_float_nonneg:
  assumes "py_float s = Some v" "CHR ''-'' \<notin> set s" "v \<noteq> NaN"
  shows "fnonneg v"
proof -
  from assms(1) obtain neg r where sp: "sign_part (c_strip (to_ascii s)) = (neg, r)"
    and v: "v = (if neg then NegInf else PosInf) \<or> (v = NaN \<and> lower r = ''nan'')
      \<or> (\<exists>d k. v = decimal_value neg d k)"
    by (rule py_float_cases)
  have "\<not> neg"
  proof
    assume neg
    with sp have "CHR ''-'' \<in> set (c_strip (to_ascii s))" by (auto dest: sign_part_minus)
    with set_c_strip have "CHR ''-'' \<in> set (to_ascii s)" by blast
    with to_ascii_minus assms(2) show False by blast
  qed
  with v assms(3) show ?thesis by (auto simp: decimal_value_nonneg)
qed

lemma py_float_NaN:
  "py_float s = Some NaN \<longleftrightarrow> lower (snd (sign_part (c_strip (to_ascii s)))) = ''nan''"
  by (auto simp: py_float_def decimal_value_not_NaN lower_def
      split: if_splits option.splits prod.splits)

lemma safe_float_nonneg:
  assumes "CHR ''-'' \<notin> set (str v)" "safe_float v \<noteq> NaN"
  shows "fnonneg (safe_float v)"
proof (cases "isna v")
  case True
  then show ?thesis by (simp add: safe_float_def)
next
  case False
  let ?s = "remove_all CHR '','' (remove_all CHR ''$'' (str v))"
  from assms(1) have minus: "CHR ''-'' \<notin> set ?s" by (simp add: remove_all_def)
  show ?thesis
  proof (cases "py_float ?s")
    case None
    with False show ?thesis by (simp add: safe_float_def)
  next
    case (Some x)
    with False have "safe_float v = x" by (simp add: safe_float_def)
    with Some minus assms(2) show ?thesis by (auto intro: py_float_nonneg)
  qed
qed

lemma safe_float_NaN:
  "safe_float v = NaN \<longleftrightarrow>
     \<not> isna v \<and>
     lower (snd (sign_part (c_strip (to_ascii
       (remove_all CHR '','' (remove_all CHR ''$'' (str v))))))) = ''nan''"
proof (cases "isna v")
  case True
  then show ?thesis by (simp add: safe_float_def)
next
  case False
  let ?s = "remove_all CHR '','' (remove_all CHR ''$'' (str v))"
  show ?thesis
  proof (cases "py_float ?s")
    case None
    then have "lower (snd (sign_part (c_strip (to_ascii ?s)))) \<noteq> ''nan''"
      using py_float_NaN [of ?s] by simp
    with None False show ?thesis by (simp add: safe_float_def)
  next
    case (Some x)
    with False have "safe_float v = NaN \<longleftrightarrow> py_float ?s = Some NaN"
      by (simp add: safe_float_def)
    with False show ?thesis by (simp add: py_float_NaN)
  qed
qed

lemma cell_minus_5: "safe_float (text_cell ''-5'') = Fin (- 5) 0"
  by (simp add: safe_float_def text_cell_def parse_eval string_eval float_eval)

lemma cell_2: "safe_float (text_cell ''2'') = Fin 1 1"
  by (simp add: safe_float_def text_cell_def parse_eval string_eval float_eval)

lemma cell_100: "safe_float (text_cell ''100'') = Fin 25 2"
  by (simp add: safe_float_def text_cell_def parse_eval string_eval float_eval)

lemma cell_50: "safe_float (text_cell ''50'') = Fin 25 1"
  by (simp add: safe_float_def text_cell_def parse_eval string_eval float_eval)

lemma round_minus_3: "round_double (- 3) 1 0 = Fin (- 3) 0"
  by (simp add: float_eval)

text \<open>
  C8, as the code has it. A cell whose text has no minus sign, and which is not read as
  \<open>NaN\<close>, gives a non-negative amount; a cell that is missing or that \<^verbatim>\<open>float()\<close>
  rejects gives 0. So the two amounts of an agent row, and their total, are non-negative
  when neither cell has a minus sign or is read as \<open>NaN\<close>.
\<close>

theorem amounts_nonnegative:
  assumes "if_col cc (\<lambda>c. CHR ''-'' \<notin> set (str (r c)) \<and> safe_float (r c) \<noteq> NaN) True"
    and "if_col fc (\<lambda>c. CHR ''-'' \<notin> set (str (r c)) \<and> safe_float (r c) \<noteq> NaN) True"
  shows "fnonneg (current_month_promised (agent_row bid d oc cc fc agent r)) \<and>
     fnonneg (following_month_promised (agent_row bid d oc cc fc agent r)) \<and>
     fnonneg (total_promised (agent_row bid d oc cc fc agent r)) \<and>
     (isna v \<or> py_float (remove_all CHR '','' (remove_all CHR ''$'' (str v))) = None
        \<longrightarrow> safe_float v = Fin 0 0)"
proof -
  have cur: "fnonneg (if_col cc (\<lambda>c. safe_float (r c)) (Fin 0 0))"
    using assms(1) by (auto simp: if_col_def safe_float_nonneg split: option.splits)
  have fol: "fnonneg (if_col fc (\<lambda>c. safe_float (r c)) (Fin 0 0))"
    using assms(2) by (auto simp: if_col_def safe_float_nonneg split: option.splits)
  from cur fol have "fnonneg (fadd (if_col cc (\<lambda>c. safe_float (r c)) (Fin 0 0))
      (if_col fc (\<lambda>c. safe_float (r c)) (Fin 0 0)))"
    by (rule fadd_nonneg)
  with cur fol have "fnonneg (current_month_promised (agent_row bid d oc cc fc agent r)) \<and>
     fnonneg (following_month_promised (agent_row bid d oc cc fc agent r)) \<and>
     fnonneg (total_promised (agent_row bid d oc cc fc agent r))"
    by (simp add: agent_row_def Let_def)
  moreover have "isna v \<or> py_float (remove_all CHR '','' (remove_all CHR ''$'' (str v))) = None
        \<longrightarrow> safe_float v = Fin 0 0"
    by (auto simp: safe_float_def)
  ultimately show ?thesis by blast
qed

theorem amounts_nonnegative_witness:
  "current_month_promised (agent_row 1 ''2024-01-31'' (Some ''Office'') (Some ''Current'')
      (Some ''Following'') ''Ann''
      (sheet_row (text_cell ''Ann'') (text_cell ''North'') (text_cell ''100'') (text_cell ''50'')))
     = Fin 25 2 \<and>
   fnonneg (total_promised (agent_row 1 ''2024-01-31'' (Some ''Office'') (Some ''Current'')
      (Some ''Following'') ''Ann''
      (sheet_row (text_cell ''Ann'') (text_cell ''North'') (text_cell ''100'') (text_cell ''50'')))) \<and>
   safe_float nan_cell = Fin 0 0"
  using amounts_nonnegative
    [of "Some ''Current''"
        "sheet_row (text_cell ''Ann'') (text_cell ''North'') (text_cell ''100'') (text_cell ''50'')"
        "Some ''Following''" 1 "''2024-01-31''" "Some ''Office''" "''Ann''" nan_cell]
  by (simp add: if_col_def sheet_row_def cell_100 cell_50 agent_row_def)
     (simp add: text_cell_def nan_cell_def)

text \<open>
  An amount with a minus sign is stored as it is read: the cells \<^verbatim>\<open>-5\<close> and \<^verbatim>\<open>2\<close>
  give the amounts -5 and 2 and the total -3.
\<close>

theorem negative_amount_counterexample:
  "safe_float (text_cell ''-5'') = Fin (- 5) 0 \<and>
   \<not> fnonneg (safe_float (text_cell ''-5'')) \<and>
   total_promised (agent_row 1 ''2024-01-31'' (Some ''Office'') (Some ''Current'')
      (Some ''Following'') ''Ann''
      (sheet_row (text_cell ''Ann'') (text_cell ''North'') (text_cell ''-5'') (text_cell ''2'')))
     = Fin (- 3) 0"
  by (simp add: agent_row_def if_col_def sheet_row_def cell_minus_5 cell_2 round_minus_3)

subsection \<open>Plain decimal text\<close>

lemma isdigit_facts:
  assumes "isdigit c"
  shows "\<not> c_isspace c" "c \<noteq> CHR ''-''" "c \<noteq> CHR ''+''" "c \<noteq> CHR ''.''" "c \<noteq> CHR ''_''"
    "lower_char c = c" "c \<noteq> CHR ''i''" "c \<noteq> CHR ''n''" "of_char c < (128 :: nat)"
  using assms by (auto simp: isdigit_def c_isspace_def lower_char_table)

lemma to_ascii_digits: "list_all isdigit ds \<Longrightarrow> list_all (\<lambda>c. of_char c < (128 :: nat)) ds"
  by (induction ds) (simp_all add: isdigit_facts)

lemma to_ascii_decimal:
  "list_all isdigit ds \<Longrightarrow> list_all isdigit fs \<Longrightarrow> to_ascii (ds @ CHR ''.'' # fs) = ds @ CHR ''.'' # fs"
  by (simp add: to_ascii_def to_ascii_digits)

lemma digits_tail_stop:
  "\<not> isdigit x \<Longrightarrow> x \<noteq> CHR ''_'' \<Longrightarrow> digits_tail (x # r) = ([], x # r)"
  by (cases r) simp_all

lemma digits_tail_digits_then:
  "list_all isdigit ds \<Longrightarrow> \<not> isdigit x \<Longrightarrow> x \<noteq> CHR ''_''
    \<Longrightarrow> digits_tail (ds @ x # r) = (ds, x # r)"
proof (induction ds)
  case Nil
  then show ?case by (simp add: digits_tail_stop)
next
  case (Cons d ds)
  then have ih: "digits_tail (ds @ x # r) = (ds, x # r)" by simp
  obtain y ys where rest: "ds @ x # r = y # ys" by (cases "ds @ x # r") auto
  from Cons.prems have "isdigit d" by simp
  with ih rest show ?case by simp
qed

lemma digits_tail_digits: "list_all isdigit ds \<Longrightarrow> digits_tail ds = (ds, [])"
proof (induction ds)
  case Nil
  then show ?case by simp
next
  case (Cons d ds)
  then have ih: "digits_tail ds = (ds, [])" and d: "isdigit d" by simp_all
  show ?case
  proof (cases ds)
    case Nil
    with d show ?thesis by simp
  next
    case (Cons y ys)
    with ih d show ?thesis by simp
  qed
qed

lemma digitpart_digits_then:
  "ds \<noteq> [] \<Longrightarrow> list_all isdigit ds \<Longrightarrow> \<not> isdigit x \<Longrightarrow> x \<noteq> CHR ''_''
    \<Longrightarrow> digitpart (ds @ x # r) = Some (ds, x # r)"
  by (cases ds) (simp_all add: digitpart_def digits_tail_digits_then)

lemma digitpart_digits:
  "list_all isdigit ds \<Longrightarrow> digitpart ds = (if ds = [] then None else Some (ds, []))"
  by (cases ds) (simp_all add: digitpart_def digits_tail_digits)

lemma float_number_decimal:
  assumes "ds \<noteq> []" "list_all isdigit ds" "list_all isdigit fs"
  shows "float_number (ds @ CHR ''.'' # fs) = Some (ds, fs, [])"
proof -
  have point: "\<not> isdigit CHR ''.''" by (simp add: isdigit_def)
  from assms(1,2) point have "digitpart (ds @ CHR ''.'' # fs) = Some (ds, CHR ''.'' # fs)"
    by (simp add: digitpart_digits_then)
  with assms(3) show ?thesis
    by (simp add: float_number_def digitpart_digits)
qed

lemma c_strip_unchanged:
  assumes "s \<noteq> []" "\<not> c_isspace (hd s)" "\<not> c_isspace (last s)"
  shows "c_strip s = s"
proof -
  from assms(1,2) have "dropWhile c_isspace s = s" by (cases s) simp_all
  moreover from assms(1,3) have "dropWhile c_isspace (rev s) = rev s"
    by (cases "rev s") (simp_all add: last_rev [symmetric] del: last_rev)
  ultimately show ?thesis by (simp add: c_strip_def)
qed

lemma decimal_value_fraction:
  "decimal_value False n (- int k) = round_double (int n) (10 ^ k) 0"
  by (cases "k = 0") (simp_all add: decimal_value_def Let_def)

lemma py_float_decimal:
  assumes "ds \<noteq> []" "list_all isdigit ds" "list_all isdigit fs"
  shows "py_float (ds @ CHR ''.'' # fs) =
     Some (round_double (int (nat_of_digits (ds @ fs))) (10 ^ length fs) 0)"
proof -
  let ?s = "ds @ CHR ''.'' # fs"
  from assms(1) obtain d ds1 where ds: "ds = d # ds1" by (cases ds) auto
  with assms(2) have d: "isdigit d" by simp
  have "\<not> c_isspace (last ?s)"
  proof (cases "fs = []")
    case True
    then show ?thesis by (simp add: c_isspace_def)
  next
    case False
    with assms(3) have "isdigit (last fs)" by (simp add: list_all_iff)
    with False show ?thesis by (simp add: isdigit_facts)
  qed
  with ds d have "c_strip ?s = ?s"
    by (intro c_strip_unchanged) (simp_all add: isdigit_facts)
  with assms(2,3) have strip: "c_strip (to_ascii ?s) = ?s"
    by (simp add: to_ascii_decimal)
  from ds d have sign: "sign_part ?s = (False, ?s)"
    by (simp add: sign_part_def isdigit_facts)
  from ds d have names: "lower ?s \<noteq> ''inf''" "lower ?s \<noteq> ''infinity''" "lower ?s \<noteq> ''nan''"
    by (auto simp: lower_def isdigit_facts)
  from assms have number: "float_number ?s = Some (ds, fs, [])"
    by (rule float_number_decimal)
  have exponent: "float_exponent [] = Some (0, [])"
    by (simp add: float_exponent_def)
  from strip sign names number exponent show ?thesis
    by (simp add: py_float_def decimal_value_fraction)
qed

lemma py_float_digits:
  assumes "ds \<noteq> []" "list_all isdigit ds"
  shows "py_float ds = Some (round_double (int (nat_of_digits ds)) 1 0)"
proof -
  from assms(1) obtain d ds1 where ds: "ds = d # ds1" by (cases ds) auto
  with assms(2) have d: "isdigit d" by simp
  from assms have "isdigit (last ds)" by (simp add: list_all_iff)
  with assms(1) ds d have "c_strip ds = ds"
    by (intro c_strip_unchanged) (simp_all add: isdigit_facts)
  with assms(2) have strip: "c_strip (to_ascii ds) = ds"
    by (simp add: to_ascii_def to_ascii_digits)
  from ds d have sign: "sign_part ds = (False, ds)"
    by (simp add: sign_part_def isdigit_facts)
  from ds d have names: "lower ds \<noteq> ''inf''" "lower ds \<noteq> ''infinity''" "lower ds \<noteq> ''nan''"
    by (auto simp: lower_def isdigit_facts)
  from assms have number: "float_number ds = Some (ds, [], [])"
    by (simp add: float_number_def digitpart_digits)
  have exponent: "float_exponent [] = Some (0, [])"
    by (simp add: float_exponent_def)
  from strip sign names number exponent show ?thesis
    using decimal_value_fraction [of "nat_of_digits ds" 0]
    by (simp add: py_float_def)
qed

lemma round_1234_56: "round_double 123456 100 0 = Fin 2714826150374277 (- 41)"
  by (simp add: float_eval)

lemma py_float_not_available: "py_float ''N/A'' = None"
  by (simp add: parse_eval string_eval)

text \<open>
  A missing cell gives 0. Otherwise the text of the cell, with every \<^verbatim>\<open>$\<close> and every
  comma removed, is given to \<^verbatim>\<open>float()\<close>: a text that \<^verbatim>\<open>float()\<close> rejects gives 0,
  and a text of digits, a point and digits gives the float nearest to that decimal number.
  The cell \<^verbatim>\<open>$1,234.56\<close> gives 1234.56 and the cell \<^verbatim>\<open>N/A\<close> gives 0.
\<close>

lemma safe_float_decimal:
  "(isna v \<longrightarrow> safe_float v = Fin 0 0) \<and>
   (\<not> isna v \<and> py_float (remove_all CHR '','' (remove_all CHR ''$'' (str v))) = None
      \<longrightarrow> safe_float v = Fin 0 0) \<and>
   (\<not> isna v \<and> ds \<noteq> [] \<and> list_all isdigit ds \<and> list_all isdigit fs \<and>
    remove_all CHR '','' (remove_all CHR ''$'' (str v)) = ds @ CHR ''.'' # fs
      \<longrightarrow> safe_float v = round_double (int (nat_of_digits (ds @ fs))) (10 ^ length fs) 0) \<and>
   (\<not> isna v \<and> ds \<noteq> [] \<and> list_all isdigit ds \<and>
    remove_all CHR '','' (remove_all CHR ''$'' (str v)) = ds
      \<longrightarrow> safe_float v = round_double (int (nat_of_digits ds)) 1 0) \<and>
   safe_float (text_cell ''$1,234.56'') = Fin 2714826150374277 (- 41) \<and>
   safe_float (text_cell ''N/A'') = Fin 0 0"
proof -
  have "safe_float (text_cell ''$1,234.56'') = Fin 2714826150374277 (- 41)"
    using py_float_decimal [of "''1234''" "''56''"]
    by (simp add: safe_float_def text_cell_def remove_all_def isdigit_def nat_of_digits_def
          digit_value_def round_1234_56)
  moreover have "safe_float (text_cell ''N/A'') = Fin 0 0"
    by (simp add: safe_float_def text_cell_def remove_all_def py_float_not_available)
  ultimately show ?thesis
    by (simp add: safe_float_def py_float_decimal py_float_digits)
qed

lemma safe_float_missing: "safe_float nan_cell = Fin 0 0"
  by (simp add: safe_float_def nan_cell_def)

text \<open>
  C7. \<open>safe_float\<close> gives 0 for a missing cell, whose value is the float \<^verbatim>\<open>nan\<close>, and
  for a text that \<^verbatim>\<open>float()\<close> rejects, such as \<^verbatim>\<open>N/A\<close>. The texts \<^verbatim>\<open>NAN\<close>,
  \<^verbatim>\<open>nan\<close> and \<^verbatim>\<open>inf\<close> are not decimal numbers, but \<^verbatim>\<open>float()\<close> does not reject
  them: such a cell is read as \<open>NaN\<close> or as infinity, not as 0.
\<close>

theorem nan_text_is_not_zero:
  "safe_float nan_cell = Fin 0 0 \<and>
   safe_float (text_cell ''N/A'') = Fin 0 0 \<and>
   safe_float (text_cell ''NAN'') = NaN \<and>
   safe_float (text_cell ''nan'') = NaN \<and>
   safe_float (text_cell ''$inf'') = PosInf"
  by (simp add: safe_float_def nan_cell_def text_cell_def parse_eval string_eval)

end
